theory Spec2Isabelle
  imports Main
begin


section \<open>The batch runner (gem\_refactor\_runner.py)\<close>

text \<open>
  The dataclass \<open>GemRefactorTask\<close>. The field \<open>dependencies\<close> defaults to
  \<open>None\<close>, so it is an option.
\<close>

record GemRefactorTask =
  task_type :: string
  priority :: int
  description :: string
  files_focus :: "string list"
  success_criteria :: "string list"
  dependencies :: "string list option"

text \<open>
  The dictionary a task leaves in the runner's \<open>results\<close> list. A key that a
  dictionary may lack is an option: \<open>execute_refactoring_task\<close> returns no
  \<open>task_type\<close> when the workspace is refused, and no \<open>error\<close> when it succeeds.
  \<open>task_info\<close> and \<open>success_criteria_verification\<close> are the keys the runner adds.
  Time stamps are wall-clock readings and are left out.
\<close>

record task_result =
  success :: bool
  r_task_type :: "string option"
  actions :: "string list"
  r_error :: "string option"
  dry_run :: bool
  task_info :: "GemRefactorTask option"
  success_criteria_verification :: "(string \<times> string) list option"

text \<open>
  What one call of \<open>RefactoringAgent.execute_refactoring_task\<close> hands back to the
  runner. The function has three return statements, one per constructor:
  the workspace was refused (error text), the conversation loop ended (the tool names
  it dispatched), or an exception was caught at the task boundary (its text and the
  tool names dispatched so far).
\<close>

datatype agent_outcome =
    WorkspaceRefused string
  | LoopEnded "string list"
  | TaskRaised string "string list"

definition agent_result :: "string \<Rightarrow> agent_outcome \<Rightarrow> task_result" where
  "agent_result tt out =
     (case out of
        WorkspaceRefused e \<Rightarrow>
          \<lparr>success = False, r_task_type = None, actions = [], r_error = Some e,
           dry_run = False, task_info = None, success_criteria_verification = None\<rparr>
      | LoopEnded acts \<Rightarrow>
          \<lparr>success = True, r_task_type = Some tt, actions = acts, r_error = None,
           dry_run = False, task_info = None, success_criteria_verification = None\<rparr>
      | TaskRaised e acts \<Rightarrow>
          \<lparr>success = False, r_task_type = Some tt, actions = acts, r_error = Some e,
           dry_run = False, task_info = None, success_criteria_verification = None\<rparr>)"

text \<open>\<open>_analyze_task\<close>: the stub result of a dry run.\<close>

definition analyze_task :: "GemRefactorTask \<Rightarrow> task_result" where
  "analyze_task t =
     \<lparr>success = True, r_task_type = Some (task_type t),
      actions = [''Would analyze and refactor '' @ task_type t], r_error = None,
      dry_run = True, task_info = None, success_criteria_verification = None\<rparr>"

text \<open>
  \<open>_check_dependencies\<close>: the set of task types with a successful result so far,
  and whether every dependency is in it. Only successful results are asked for their
  \<open>task_type\<close>.
\<close>

definition completed_tasks :: "task_result list \<Rightarrow> string option set" where
  "completed_tasks completed_results = r_task_type ` set (filter success completed_results)"

definition check_dependencies :: "string list \<Rightarrow> task_result list \<Rightarrow> bool" where
  "check_dependencies deps completed_results =
     list_all (\<lambda>dep. Some dep \<in> completed_tasks completed_results) deps"

text \<open>\<open>_verify_success_criteria\<close> marks every criterion for manual verification.\<close>

definition verify_success_criteria :: "GemRefactorTask \<Rightarrow> task_result \<Rightarrow> task_result" where
  "verify_success_criteria t r =
     r\<lparr>success_criteria_verification :=
         Some (map (\<lambda>c. (c, ''needs_manual_verification'')) (success_criteria t))\<rparr>"

text \<open>
  Python's truth value of \<open>task.dependencies\<close>: \<open>None\<close> and the empty list are
  false.
\<close>

definition has_dependencies :: "GemRefactorTask \<Rightarrow> bool" where
  "has_dependencies t = (case dependencies t of None \<Rightarrow> False | Some ds \<Rightarrow> ds \<noteq> [])"

definition skipped :: "GemRefactorTask \<Rightarrow> task_result list \<Rightarrow> bool" where
  "skipped t results =
     (has_dependencies t \<and> \<not> check_dependencies (the (dependencies t)) results)"

text \<open>
  The loop over the sorted tasks (lines 200 to 237). The agent is the external
  collaborator: it is a function of the state \<open>'s\<close> of the world (file system, model
  provider) and of the task, and returns the new state. The loop carries the list
  \<open>results\<close> and the counter \<open>successful_tasks\<close>.
\<close>

fun run_tasks ::
  "('s \<Rightarrow> GemRefactorTask \<Rightarrow> agent_outcome \<times> 's) \<Rightarrow> bool \<Rightarrow> GemRefactorTask list \<Rightarrow>
   task_result list \<Rightarrow> nat \<Rightarrow> 's \<Rightarrow> task_result list \<times> nat \<times> 's" where
  "run_tasks agent dry [] results successful_tasks s = (results, successful_tasks, s)"
| "run_tasks agent dry (t # ts) results successful_tasks s =
     (if skipped t results then run_tasks agent dry ts results successful_tasks s
      else
        let (r0, s') = (if dry then (analyze_task t, s)
                        else (let (out, s1) = agent s t in (agent_result (task_type t) out, s1)));
            r1 = r0\<lparr>task_info := Some t\<rparr>
        in if success r1
           then run_tasks agent dry ts (results @ [verify_success_criteria t r1])
                  (successful_tasks + 1) s'
           else run_tasks agent dry ts (results @ [r1]) successful_tasks s')"

text \<open>
  \<open>_generate_summary\<close>. The success rate is a floating point number and the time
  stamp a clock reading; both are left out.
\<close>

record summary =
  total_tasks :: nat
  successful_tasks :: nat
  failed_tasks :: nat
  total_actions :: nat
  task_results :: "task_result list"

definition generate_summary :: "task_result list \<Rightarrow> nat \<Rightarrow> nat \<Rightarrow> summary" where
  "generate_summary results successful n_total =
     \<lparr>total_tasks = n_total, successful_tasks = successful,
      failed_tasks = n_total - successful,
      total_actions = sum_list (map (\<lambda>r. length (actions r)) results),
      task_results = results\<rparr>"

text \<open>\<open>get_default_gem_refactor_plan\<close>: the eight tasks of the default plan.\<close>

definition get_default_gem_refactor_plan :: "GemRefactorTask list" where
  "get_default_gem_refactor_plan =
    [\<lparr>task_type = ''architecture'', priority = 1,
      description = ''Analyze and improve gem architecture and module organization'',
      files_focus = [''lib/observable'', ''lib/observable.rb''],
      success_criteria = [''Clear module boundaries'', ''Reduced coupling between components'',
        ''Proper separation of concerns''],
      dependencies = None\<rparr>,
     \<lparr>task_type = ''performance'', priority = 2,
      description = ''Optimize instrumentation performance and reduce overhead'',
      files_focus = [''lib/observable/instrumenter.rb''],
      success_criteria = [''Reduced method call overhead'', ''Optimized argument extraction'',
        ''Efficient span creation'', ''Memory usage improvements''],
      dependencies = Some [''architecture'']\<rparr>,
     \<lparr>task_type = ''code_smells'', priority = 3,
      description = ''Remove code smells and improve code quality'',
      files_focus = [''lib/observable/instrumenter.rb'', ''test/''],
      success_criteria = [''Methods under 15 lines'', ''Classes with single responsibility'',
        ''No duplicate code patterns'', ''Proper error handling''],
      dependencies = None\<rparr>,
     \<lparr>task_type = ''idiomatic'', priority = 4,
      description = ''Make code more idiomatic Ruby and follow gem conventions'',
      files_focus = [''lib/'', ''observable.gemspec''],
      success_criteria = [''Follows Ruby naming conventions'', ''Uses appropriate Ruby patterns'',
        ''Proper gem structure'', ''Standard Ruby idioms''],
      dependencies = Some [''code_smells'']\<rparr>,
     \<lparr>task_type = ''error_handling'', priority = 5,
      description = ''Improve error handling and instrumentation resilience'',
      files_focus = [''lib/observable/instrumenter.rb''],
      success_criteria = [''Graceful degradation on errors'', ''Proper exception handling'',
        ''Clear error messages'', ''No instrumentation failures affect application''],
      dependencies = None\<rparr>,
     \<lparr>task_type = ''testing'', priority = 6,
      description = ''Enhance test coverage and test quality'',
      files_focus = [''test/'', ''test/unit/''],
      success_criteria = [''100% test coverage for critical paths'', ''Edge case testing'',
        ''Performance benchmarks'', ''Integration tests for OpenTelemetry''],
      dependencies = Some [''error_handling'']\<rparr>,
     \<lparr>task_type = ''understandability'', priority = 7,
      description = ''Improve code documentation and clarity'',
      files_focus = [''lib/observable/'', ''README.md''],
      success_criteria = [''Clear method documentation'', ''Usage examples'',
        ''API documentation'', ''Code comments for complex logic''],
      dependencies = None\<rparr>,
     \<lparr>task_type = ''duplication'', priority = 8,
      description = ''Remove code duplication and extract common patterns'',
      files_focus = [''lib/'', ''test/''],
      success_criteria = [''No duplicate code blocks'', ''Shared utilities extracted'',
        ''Common patterns abstracted'', ''DRY principle applied''],
      dependencies = Some [''understandability'']\<rparr>]"

text \<open>
  \<open>run_gem_refactor_plan\<close>: the default plan when no task list is given, a
  stable sort on the priority, the analysis before the loop, the loop, the analysis
  after it unless the run is dry, and the summary that is then saved and returned. The
  two analyses only act on the world; saving the report can raise, in which case the
  exception leaves the function and no summary is returned.
\<close>

definition plan_summary ::
  "('s \<Rightarrow> GemRefactorTask \<Rightarrow> agent_outcome \<times> 's) \<Rightarrow> ('s \<Rightarrow> 's) \<Rightarrow> ('s \<Rightarrow> 's) \<Rightarrow>
   GemRefactorTask list option \<Rightarrow> bool \<Rightarrow> 's \<Rightarrow> summary \<times> 's" where
  "plan_summary agent pre_analysis post_analysis tasks dry s =
     (let tasks1 = (case tasks of None \<Rightarrow> get_default_gem_refactor_plan | Some ts \<Rightarrow> ts);
          sorted_tasks = sort_key priority tasks1;
          (results, successful, s1) = run_tasks agent dry sorted_tasks [] 0 (pre_analysis s);
          s2 = (if dry then s1 else post_analysis s1)
      in (generate_summary results successful (length sorted_tasks), s2))"

definition run_gem_refactor_plan ::
  "('s \<Rightarrow> GemRefactorTask \<Rightarrow> agent_outcome \<times> 's) \<Rightarrow> ('s \<Rightarrow> 's) \<Rightarrow> ('s \<Rightarrow> 's) \<Rightarrow>
   ('s \<Rightarrow> summary \<Rightarrow> string + 's) \<Rightarrow>
   GemRefactorTask list option \<Rightarrow> bool \<Rightarrow> 's \<Rightarrow> string + (summary \<times> 's)" where
  "run_gem_refactor_plan agent pre_analysis post_analysis save_results tasks dry s =
     (let (summ, s2) = plan_summary agent pre_analysis post_analysis tasks dry s
      in case save_results s2 summ of
           Inl e \<Rightarrow> Inl e
         | Inr s3 \<Rightarrow> Inr (summ, s3))"

definition plan_of :: "GemRefactorTask list option \<Rightarrow> GemRefactorTask list" where
  "plan_of tasks = (case tasks of None \<Rightarrow> get_default_gem_refactor_plan | Some ts \<Rightarrow> ts)"

text \<open>
  An agent whose every task ends in a caught exception, a world with no state, and a
  report writer that never fails: the inputs of the examples below.
\<close>

definition failing_agent :: "unit \<Rightarrow> GemRefactorTask \<Rightarrow> agent_outcome \<times> unit" where
  "failing_agent s t = (TaskRaised ''provider unreachable'' [], s)"

definition saved :: "unit \<Rightarrow> summary \<Rightarrow> string + unit" where
  "saved s summ = Inr s"


definition failed_run_summary :: summary where
  "failed_run_summary = fst (plan_summary failing_agent id id None False ())"

section \<open>The agent system (agent\_system.py)\<close>

subsection \<open>Python strings and values\<close>

text \<open>
  A Python \<open>str\<close> is modelled as a \<open>string\<close>, one \<open>char\<close> per code point;
  the model covers the code points below 256. The functions below are the methods of
  \<open>str\<close> that the source calls.
\<close>

definition newline :: char where
  "newline = CHR 0x0A"

definition carriage_return :: char where
  "carriage_return = CHR 0x0D"

text \<open>\<open>str.isspace\<close> on one character, for the code points below 256.\<close>

definition is_space :: "char \<Rightarrow> bool" where
  "is_space c = ((of_char c :: nat) \<in> {9, 10, 11, 12, 13, 28, 29, 30, 31, 32, 133, 160})"

text \<open>\<open>s.strip()\<close>\<close>

definition strip :: "string \<Rightarrow> string" where
  "strip s = rev (dropWhile is_space (rev (dropWhile is_space s)))"

text \<open>\<open>s.split(d)\<close> for a separator of one character: never the empty list.\<close>

fun split_on :: "char \<Rightarrow> string \<Rightarrow> string list" where
  "split_on d [] = [[]]"
| "split_on d (c # cs) =
     (let r = split_on d cs in if c = d then [] # r else (c # hd r) # tl r)"

text \<open>\<open>s.startswith(p)\<close>\<close>

definition starts_with :: "string \<Rightarrow> string \<Rightarrow> bool" where
  "starts_with p s = (take (length p) s = p)"

text \<open>\<open>p in s\<close> for strings: \<open>p\<close> occurs somewhere in \<open>s\<close>.\<close>

fun contains :: "string \<Rightarrow> string \<Rightarrow> bool" where
  "contains p [] = (p = [])"
| "contains p (c # cs) = (starts_with p (c # cs) \<or> contains p cs)"

text \<open>
  \<open>s.replace(old, '')\<close>: every occurrence of \<open>old\<close> is deleted, scanning from
  the left and resuming after each occurrence.
\<close>

function remove_all :: "string \<Rightarrow> string \<Rightarrow> string" where
  "remove_all old [] = []"
| "remove_all old (c # cs) =
     (if old \<noteq> [] \<and> starts_with old (c # cs)
      then remove_all old (drop (length old) (c # cs))
      else c # remove_all old cs)"
  by pat_completeness auto
termination
  by (relation "measure (\<lambda>(old, s). length s)") auto

text \<open>\<open>s.lower()\<close> on the code points below 256.\<close>

definition lower_char :: "char \<Rightarrow> char" where
  "lower_char c =
     (let n = (of_char c :: nat)
      in if (65 \<le> n \<and> n \<le> 90) \<or> (192 \<le> n \<and> n \<le> 222 \<and> n \<noteq> 215)
         then char_of (n + 32) else c)"

definition lower :: "string \<Rightarrow> string" where
  "lower s = map lower_char s"

text \<open>\<open>str(n)\<close> for a natural number.\<close>

fun str_nat :: "nat \<Rightarrow> string" where
  "str_nat n = (if n < 10 then [char_of (48 + n)] else str_nat (n div 10) @ [char_of (48 + n mod 10)])"

declare str_nat.simps [simp del]

text \<open>
  The values that \<open>json.loads\<close> produces and that the tools return in their result
  dictionaries. A dictionary is an association list in insertion order with distinct
  keys. \<open>JNum\<close> is a Python \<open>int\<close>. \<open>JFloat\<close> is a Python \<open>float\<close>: the
  code only ever asks whether it is zero, which is the flag it carries.
\<close>

datatype json =
    JNull
  | JBool bool
  | JNum int
  | JFloat bool
  | JStr string
  | JArr "json list"
  | JObj "(string \<times> json) list"

type_synonym pydict = "(string \<times> json) list"

text \<open>Python's truth value of a value.\<close>

fun truthy :: "json \<Rightarrow> bool" where
  "truthy JNull = False"
| "truthy (JBool b) = b"
| "truthy (JNum n) = (n \<noteq> 0)"
| "truthy (JFloat nonzero) = nonzero"
| "truthy (JStr s) = (s \<noteq> [])"
| "truthy (JArr xs) = (xs \<noteq> [])"
| "truthy (JObj kvs) = (kvs \<noteq> [])"

text \<open>\<open>d[k] = v\<close> on a dictionary: an existing key keeps its place.\<close>

fun dict_set :: "pydict \<Rightarrow> string \<Rightarrow> json \<Rightarrow> pydict" where
  "dict_set [] k v = [(k, v)]"
| "dict_set ((k', v') # kvs) k v =
     (if k' = k then (k, v) # kvs else (k', v') # dict_set kvs k v)"

text \<open>\<open>d.get(k)\<close>\<close>

definition dict_get :: "pydict \<Rightarrow> string \<Rightarrow> json option" where
  "dict_get d k = map_of d k"

text \<open>
  The exceptions the model distinguishes: the classes that an \<open>except\<close> clause of the
  source names, and the ones the modelled library calls raise.
\<close>

datatype exn =
    TypeError
  | PermissionError
  | UnicodeDecodeError
  | TimeoutExpired
  | FileNotFoundError
  | FileExistsError
  | IsADirectoryError
  | NotADirectoryError
  | OtherError string

text \<open>
  The parts of the Python runtime that are taken as given: \<open>json.loads\<close> (\<open>None\<close>
  when it raises \<open>JSONDecodeError\<close>), \<open>str(e)\<close> of an exception, and \<open>str(v)\<close> of a
  value that is not a string.
\<close>

record runtime =
  json_loads :: "string \<Rightarrow> json option"
  str_exn :: "exn \<Rightarrow> string"
  str_val :: "json \<Rightarrow> string"

text \<open>A value inside an f-string: a string stands for itself.\<close>

definition fmt :: "runtime \<Rightarrow> json \<Rightarrow> string" where
  "fmt rt v = (case v of JStr s \<Rightarrow> s | _ \<Rightarrow> str_val rt v)"

subsection \<open>The action parser: the scan of \<open>_parse_and_execute_action\<close>\<close>

text \<open>
  The four local variables of the scan (lines 816 to 819). \<open>tool_name\<close> starts as
  \<open>None\<close>, \<open>params\<close> as the empty dictionary.
\<close>

record parse_state =
  action_found :: bool
  tool_name :: "string option"
  params :: json
  reasoning :: string

definition initial_parse_state :: parse_state where
  "initial_parse_state =
     \<lparr>action_found = False, tool_name = None, params = JObj [], reasoning = []\<rparr>"

text \<open>The body of the loop over the lines (lines 822 to 837).\<close>

definition parse_line :: "runtime \<Rightarrow> parse_state \<Rightarrow> string \<Rightarrow> parse_state" where
  "parse_line rt st raw =
     (let line = strip raw
      in if starts_with ''ACTION:'' line
         then st\<lparr>tool_name := Some (strip (remove_all ''ACTION:'' line)), action_found := True\<rparr>
         else if starts_with ''PARAMS:'' line \<and> action_found st
         then (case json_loads rt (strip (remove_all ''PARAMS:'' line)) of
                 Some v \<Rightarrow> st\<lparr>params := v\<rparr>
               | None \<Rightarrow> st\<lparr>params := JObj []\<rparr>)
         else if starts_with ''REASONING:'' line \<and> action_found st
         then st\<lparr>reasoning := strip (remove_all ''REASONING:'' line)\<rparr>
         else st)"

definition parse_lines :: "runtime \<Rightarrow> string list \<Rightarrow> parse_state" where
  "parse_lines rt ls = foldl (parse_line rt) initial_parse_state ls"

definition parse_action :: "runtime \<Rightarrow> string \<Rightarrow> parse_state" where
  "parse_action rt ai_response = parse_lines rt (split_on newline ai_response)"

text \<open>
  The test after the scan (line 840), \<open>action_found and tool_name\<close>: an action was
  seen and its name is not the empty string.
\<close>

definition has_action :: "parse_state \<Rightarrow> bool" where
  "has_action st = (action_found st \<and> (case tool_name st of None \<Rightarrow> False | Some n \<Rightarrow> n \<noteq> []))"



text \<open>
  A runtime for the examples: \<open>json.loads\<close> is given by the table of the strings an
  example passes to it, with \<open>None\<close> where it raises \<open>JSONDecodeError\<close>; the two
  renderings are not looked at by any example.
\<close>

definition table_runtime :: "(string \<times> json) list \<Rightarrow> runtime" where
  "table_runtime tbl =
     \<lparr>json_loads = map_of tbl, str_exn = (\<lambda>e. ''exception''), str_val = (\<lambda>v. ''value'')\<rparr>"





subsection \<open>Paths: the functions of \<open>os.path\<close> on a POSIX system\<close>

definition slash :: char where
  "slash = CHR ''/''"

text \<open>\<open>os.path.isabs\<close>\<close>

definition isabs :: "string \<Rightarrow> bool" where
  "isabs p = starts_with ''/'' p"

text \<open>\<open>os.path.join\<close> of two paths.\<close>

definition join :: "string \<Rightarrow> string \<Rightarrow> string" where
  "join a b =
     (if starts_with ''/'' b then b
      else if a = [] \<or> last a = slash then a @ b
      else a @ ''/'' @ b)"

text \<open>\<open>sep.join(comps)\<close>\<close>

fun join_with :: "string \<Rightarrow> string list \<Rightarrow> string" where
  "join_with sep [] = []"
| "join_with sep [c] = c"
| "join_with sep (c # d # cs) = c @ sep @ join_with sep (d # cs)"

text \<open>
  The loop of \<open>os.path.normpath\<close> over the components: empty components and
  \<open>.\<close> are dropped, \<open>..\<close> removes the component before it, is kept at the
  start of a relative path, and is dropped at the root.
\<close>

fun norm_comps :: "bool \<Rightarrow> string list \<Rightarrow> string list \<Rightarrow> string list" where
  "norm_comps initial_slashes [] new_comps = new_comps"
| "norm_comps initial_slashes (c # comps) new_comps =
     (if c = [] \<or> c = ''.'' then norm_comps initial_slashes comps new_comps
      else if c \<noteq> ''..'' \<or> (\<not> initial_slashes \<and> new_comps = []) \<or>
              (new_comps \<noteq> [] \<and> last new_comps = ''..'')
      then norm_comps initial_slashes comps (new_comps @ [c])
      else if new_comps \<noteq> [] then norm_comps initial_slashes comps (butlast new_comps)
      else norm_comps initial_slashes comps new_comps)"

definition normpath :: "string \<Rightarrow> string" where
  "normpath p =
     (if p = [] then ''.''
      else
        let initial_slashes =
              (if starts_with ''/'' p
               then (if starts_with ''//'' p \<and> \<not> starts_with ''///'' p then 2 else 1 :: nat)
               else 0);
            comps = norm_comps (initial_slashes \<noteq> 0) (split_on slash p) [];
            r = replicate initial_slashes slash @ join_with ''/'' comps
        in if r = [] then ''.'' else r)"

text \<open>\<open>os.path.abspath\<close>, given the current directory of the process.\<close>

definition abspath :: "string \<Rightarrow> string \<Rightarrow> string" where
  "abspath cwd p = normpath (if isabs p then p else join cwd p)"

text \<open>
  The place a path names in the file tree: the components below the root. The kernel's
  resolution of a path is modelled by its lexical normal form: there are no symbolic
  links, and two leading slashes name the root like one.
\<close>

type_synonym place = "string list"

definition place_of :: "string \<Rightarrow> string \<Rightarrow> place" where
  "place_of cwd p = filter (\<lambda>c. c \<noteq> []) (split_on slash (abspath cwd p))"

subsection \<open>The world: file tree, current directory, open descriptors\<close>

text \<open>
  A regular file holds text, stored as the characters whose UTF-8 encoding is on the
  disk, or bytes that are not UTF-8 (with their number). The two flags of a node are the
  read and the write permission of the process.
\<close>

datatype filedata = Text string | Undecodable nat

datatype node = Dir bool bool | File bool bool filedata

record world =
  cwd :: string
  fs :: "place \<Rightarrow> node option"
  descriptors :: "int \<Rightarrow> place option"

definition getcwd :: "world \<Rightarrow> string" where
  "getcwd w = cwd w"

definition node_at :: "world \<Rightarrow> string \<Rightarrow> node option" where
  "node_at w p = fs w (place_of (cwd w) p)"

text \<open>\<open>os.path.exists\<close>, \<open>os.path.isfile\<close>, \<open>os.path.isdir\<close> on a string.\<close>

definition path_exists :: "world \<Rightarrow> string \<Rightarrow> bool" where
  "path_exists w p = (node_at w p \<noteq> None)"

definition isfile :: "world \<Rightarrow> string \<Rightarrow> bool" where
  "isfile w p = (case node_at w p of Some (File r wr d) \<Rightarrow> True | _ \<Rightarrow> False)"

definition isdir :: "world \<Rightarrow> string \<Rightarrow> bool" where
  "isdir w p = (case node_at w p of Some (Dir r wr) \<Rightarrow> True | _ \<Rightarrow> False)"

text \<open>The size in bytes of a file's data: a code point from 128 on takes two bytes.\<close>

definition data_size :: "filedata \<Rightarrow> nat" where
  "data_size d =
     (case d of
        Text s \<Rightarrow> sum_list (map (\<lambda>c. if (of_char c :: nat) < 128 then 1 else 2) s)
      | Undecodable n \<Rightarrow> n)"

text \<open>
  Reading in text mode with the default \<open>newline=None\<close>: universal newlines. A
  carriage return, alone or followed by a line feed, is returned as one line feed.
\<close>

fun universal_newlines :: "string \<Rightarrow> string" where
  "universal_newlines [] = []"
| "universal_newlines [c] = (if c = carriage_return then [newline] else [c])"
| "universal_newlines (c # d # cs) =
     (if c = carriage_return \<and> d = newline then newline # universal_newlines cs
      else if c = carriage_return then newline # universal_newlines (d # cs)
      else c # universal_newlines (d # cs))"

text \<open>
  \<open>open(p, 'r', encoding='utf-8')\<close> followed by \<open>f.read()\<close>.
\<close>

definition read_text :: "world \<Rightarrow> string \<Rightarrow> exn + string" where
  "read_text w p =
     (case node_at w p of
        None \<Rightarrow> Inl FileNotFoundError
      | Some (Dir r wr) \<Rightarrow> Inl IsADirectoryError
      | Some (File r wr d) \<Rightarrow>
          if \<not> r then Inl PermissionError
          else (case d of
                  Undecodable n \<Rightarrow> Inl UnicodeDecodeError
                | Text s \<Rightarrow> Inr (universal_newlines s)))"

text \<open>
  \<open>open(p, 'w', encoding='utf-8')\<close>: an existing file is emptied, a missing one is
  created (readable and writable) in its directory. On a POSIX system the line feeds
  that are written later are stored as they are.
\<close>

definition open_write :: "world \<Rightarrow> string \<Rightarrow> exn + world" where
  "open_write w p =
     (let pl = place_of (cwd w) p
      in case fs w pl of
           Some (Dir r wr) \<Rightarrow> Inl IsADirectoryError
         | Some (File r wr d) \<Rightarrow>
             if wr then Inr (w\<lparr>fs := (fs w)(pl := Some (File r wr (Text [])))\<rparr>)
             else Inl PermissionError
         | None \<Rightarrow>
             (case fs w (butlast pl) of
                None \<Rightarrow> Inl FileNotFoundError
              | Some (File r wr d) \<Rightarrow> Inl NotADirectoryError
              | Some (Dir r wr) \<Rightarrow>
                  if wr then Inr (w\<lparr>fs := (fs w)(pl := Some (File True True (Text [])))\<rparr>)
                  else Inl PermissionError))"

text \<open>\<open>f.write(content)\<close> on the file just opened at \<open>p\<close>, then closing it.\<close>

definition store_text :: "world \<Rightarrow> string \<Rightarrow> string \<Rightarrow> world" where
  "store_text w p s =
     (let pl = place_of (cwd w) p
      in case fs w pl of
           Some (File r wr d) \<Rightarrow> w\<lparr>fs := (fs w)(pl := Some (File r wr (Text s)))\<rparr>
         | _ \<Rightarrow> w)"

text \<open>\<open>os.mkdir\<close> at a place.\<close>

definition mkdir :: "world \<Rightarrow> place \<Rightarrow> exn + world" where
  "mkdir w pl =
     (if fs w pl \<noteq> None then Inl FileExistsError
      else case fs w (butlast pl) of
             None \<Rightarrow> Inl FileNotFoundError
           | Some (File r wr d) \<Rightarrow> Inl NotADirectoryError
           | Some (Dir r wr) \<Rightarrow>
               if wr then Inr (w\<lparr>fs := (fs w)(pl := Some (Dir True True))\<rparr>)
               else Inl PermissionError)"

text \<open>
  \<open>os.makedirs(p, exist_ok=True)\<close> on the first \<open>n\<close> components of a place:
  the parent is made first when it does not exist, then the directory itself; the
  error of \<open>mkdir\<close> is dropped when the directory is there.
\<close>

fun makedirs_upto :: "world \<Rightarrow> place \<Rightarrow> nat \<Rightarrow> exn + world" where
  "makedirs_upto w pl 0 = (if fs w [] = None then mkdir w [] else
      (case fs w [] of Some (Dir r wr) \<Rightarrow> Inr w | _ \<Rightarrow> Inl FileExistsError))"
| "makedirs_upto w pl (Suc n) =
     (let head_made =
            (if fs w (take n pl) = None
             then (case makedirs_upto w pl n of
                     Inl FileExistsError \<Rightarrow> Inr w
                   | other \<Rightarrow> other)
             else Inr w)
      in case head_made of
           Inl e \<Rightarrow> Inl e
         | Inr w1 \<Rightarrow>
             (case mkdir w1 (take (Suc n) pl) of
                Inr w2 \<Rightarrow> Inr w2
              | Inl e \<Rightarrow>
                  (case fs w1 (take (Suc n) pl) of
                     Some (Dir r wr) \<Rightarrow> Inr w1
                   | _ \<Rightarrow> Inl e)))"

definition makedirs :: "world \<Rightarrow> string \<Rightarrow> exn + world" where
  "makedirs w p = (let pl = place_of (cwd w) p in makedirs_upto w pl (length pl))"

text \<open>\<open>os.path.dirname\<close>\<close>

definition dirname :: "string \<Rightarrow> string" where
  "dirname p =
     (let hd_part = rev (dropWhile (\<lambda>c. c \<noteq> slash) (rev p))
      in if hd_part \<noteq> [] \<and> hd_part \<noteq> replicate (length hd_part) slash
         then rev (dropWhile (\<lambda>c. c = slash) (rev hd_part))
         else hd_part)"

text \<open>
  \<open>os.chdir\<close> on a string. The current directory is kept as an absolute normal
  path, as \<open>os.getcwd\<close> reports it.
\<close>

definition chdir :: "world \<Rightarrow> string \<Rightarrow> exn + world" where
  "chdir w p =
     (case node_at w p of
        None \<Rightarrow> Inl FileNotFoundError
      | Some (File r wr d) \<Rightarrow> Inl NotADirectoryError
      | Some (Dir r wr) \<Rightarrow> Inr (w\<lparr>cwd := slash # join_with ''/'' (place_of (cwd w) p)\<rparr>))"

subsection \<open>The file tools\<close>

text \<open>
  The arguments of a tool come from \<open>json.loads\<close>, so they are values of any JSON
  type. A library function that expects a path raises \<open>TypeError\<close> on anything that
  is not a string.
\<close>

datatype resolved = Denied | Target string

text \<open>
  The first statements of \<open>FileReadTool.execute\<close> (lines 119 to 134) and of
  \<open>FileWriteTool.execute\<close> (lines 189 to 204), which are the same: an absolute path
  is accepted only when it starts with the absolute workspace path, a relative path is
  joined to the workspace, and the outcome is made absolute.
\<close>

definition resolve_target :: "world \<Rightarrow> json \<Rightarrow> json \<Rightarrow> exn + resolved" where
  "resolve_target w file_path workspace_dir =
     (if truthy workspace_dir
      then (case file_path of
              JStr fp \<Rightarrow>
                (case workspace_dir of
                   JStr ws \<Rightarrow>
                     if isabs fp
                     then (if \<not> starts_with (abspath (cwd w) ws) fp then Inr Denied
                           else Inr (Target (abspath (cwd w) fp)))
                     else Inr (Target (abspath (cwd w) (join ws fp)))
                 | _ \<Rightarrow> Inl TypeError)
            | _ \<Rightarrow> Inl TypeError)
      else (case file_path of
              JStr fp \<Rightarrow> Inr (Target (abspath (cwd w) fp))
            | _ \<Rightarrow> Inl TypeError))"

definition access_denied :: "runtime \<Rightarrow> json \<Rightarrow> pydict" where
  "access_denied rt file_path =
     [(''success'', JBool False),
      (''error'', JStr ''Access denied: file is outside workspace directory''),
      (''message'', JStr (''File '' @ fmt rt file_path @ '' is outside the allowed workspace''))]"

text \<open>
  The \<open>try\<close> block of \<open>FileReadTool.execute\<close>: the statements after the
  target is known (lines 136 to 159), then the whole block.
\<close>

definition read_at :: "runtime \<Rightarrow> world \<Rightarrow> json \<Rightarrow> string \<Rightarrow> exn + pydict" where
  "read_at rt w file_path full_path =
     (if \<not> path_exists w full_path
      then Inr [(''success'', JBool False), (''error'', JStr ''File not found''),
                (''message'', JStr (''File '' @ fmt rt file_path @ '' does not exist at ''
                                    @ full_path))]
      else if \<not> isfile w full_path
      then Inr [(''success'', JBool False), (''error'', JStr ''Path is not a file''),
                (''message'', JStr (''Path '' @ full_path @ '' exists but is not a file''))]
      else (case read_text w full_path of
              Inl e \<Rightarrow> Inl e
            | Inr content \<Rightarrow>
                Inr [(''success'', JBool True), (''content'', JStr content),
                     (''file_path'', JStr full_path),
                     (''file_size'', JNum (int (length content))),
                     (''message'', JStr (''Successfully read '' @ fmt rt file_path @ '' (''
                        @ str_nat (length content) @ '' characters)''))]))"

definition read_file_body :: "runtime \<Rightarrow> world \<Rightarrow> json \<Rightarrow> json \<Rightarrow> exn + pydict" where
  "read_file_body rt w file_path workspace_dir =
     (case resolve_target w file_path workspace_dir of
        Inl e \<Rightarrow> Inl e
      | Inr Denied \<Rightarrow> Inr (access_denied rt file_path)
      | Inr (Target full_path) \<Rightarrow> read_at rt w file_path full_path)"

text \<open>\<open>FileReadTool.execute\<close>: the body under its three \<open>except\<close> clauses.\<close>

definition FileReadTool_execute :: "runtime \<Rightarrow> world \<Rightarrow> json \<Rightarrow> json \<Rightarrow> pydict" where
  "FileReadTool_execute rt w file_path workspace_dir =
     (case read_file_body rt w file_path workspace_dir of
        Inr r \<Rightarrow> r
      | Inl UnicodeDecodeError \<Rightarrow>
          [(''success'', JBool False),
           (''error'', JStr (''File encoding error: '' @ str_exn rt UnicodeDecodeError)),
           (''message'', JStr (''Could not read '' @ fmt rt file_path
              @ '' - file may be binary or use unsupported encoding''))]
      | Inl PermissionError \<Rightarrow>
          [(''success'', JBool False), (''error'', JStr ''Permission denied''),
           (''message'', JStr (''Permission denied reading '' @ fmt rt file_path @ '': ''
              @ str_exn rt PermissionError))]
      | Inl e \<Rightarrow>
          [(''success'', JBool False), (''error'', JStr (str_exn rt e)),
           (''message'', JStr (''Failed to read '' @ fmt rt file_path @ '': '' @ str_exn rt e))])"

text \<open>
  The \<open>try\<close> block of \<open>FileWriteTool.execute\<close>: the statements after the target
  is known (lines 206 to 232), then the whole block. The directories are made before the
  file is opened, and the file is opened (created or emptied) before the content is
  written, so a failure can leave these effects behind: the world is returned in both
  cases. The size of a path that is a directory is never reported, since opening it
  fails.
\<close>

definition write_at ::
  "runtime \<Rightarrow> world \<Rightarrow> json \<Rightarrow> json \<Rightarrow> string \<Rightarrow> world \<times> (exn + pydict)" where
  "write_at rt w file_path content full_path =
     (case (if dirname full_path \<noteq> [] then makedirs w (dirname full_path) else Inr w) of
        Inl e \<Rightarrow> (w, Inl e)
      | Inr w1 \<Rightarrow>
          let file_existed = path_exists w1 full_path;
              original_size = (case node_at w1 full_path of
                                 Some (File r wr d) \<Rightarrow> data_size d
                               | _ \<Rightarrow> 0)
          in (case open_write w1 full_path of
                Inl e \<Rightarrow> (w1, Inl e)
              | Inr w2 \<Rightarrow>
                  (case content of
                     JStr c \<Rightarrow>
                       let new_size = length c;
                           n_lines = length (filter (\<lambda>x. x = newline) c) + 1
                       in (store_text w2 full_path c,
                           Inr [(''success'', JBool True), (''file_path'', JStr full_path),
                                (''file_existed'', JBool file_existed),
                                (''original_size'', JNum (int original_size)),
                                (''new_size'', JNum (int new_size)),
                                (''bytes_written'', JNum (int new_size)),
                                (''lines_written'', JNum (int n_lines)),
                                (''message'', JStr (''Successfully ''
                                   @ (if file_existed then ''updated'' else ''created'')
                                   @ '' '' @ fmt rt file_path @ '' ('' @ str_nat new_size
                                   @ '' bytes, '' @ str_nat n_lines @ '' lines)''))])
                   | _ \<Rightarrow> (w2, Inl TypeError))))"

definition write_file_body ::
  "runtime \<Rightarrow> world \<Rightarrow> json \<Rightarrow> json \<Rightarrow> json \<Rightarrow> world \<times> (exn + pydict)" where
  "write_file_body rt w file_path content workspace_dir =
     (case resolve_target w file_path workspace_dir of
        Inl e \<Rightarrow> (w, Inl e)
      | Inr Denied \<Rightarrow> (w, Inr (access_denied rt file_path))
      | Inr (Target full_path) \<Rightarrow> write_at rt w file_path content full_path)"

text \<open>\<open>FileWriteTool.execute\<close>: the body under its two \<open>except\<close> clauses.\<close>

definition FileWriteTool_execute ::
  "runtime \<Rightarrow> world \<Rightarrow> json \<Rightarrow> json \<Rightarrow> json \<Rightarrow> world \<times> pydict" where
  "FileWriteTool_execute rt w file_path content workspace_dir =
     (case write_file_body rt w file_path content workspace_dir of
        (w', Inr r) \<Rightarrow> (w', r)
      | (w', Inl PermissionError) \<Rightarrow>
          (w', [(''success'', JBool False), (''error'', JStr ''Permission denied''),
                (''message'', JStr (''Permission denied writing to '' @ fmt rt file_path @ '': ''
                   @ str_exn rt PermissionError))])
      | (w', Inl e) \<Rightarrow>
          (w', [(''success'', JBool False), (''error'', JStr (str_exn rt e)),
                (''message'', JStr (''Failed to write '' @ fmt rt file_path @ '': ''
                   @ str_exn rt e))]))"

text \<open>
  The world of the examples: the directories \<open>/\<close>, \<open>/tmp\<close>, \<open>/tmp/ws\<close> and
  \<open>/etc\<close>, the files \<open>/etc/passwd\<close> and \<open>/tmp/outside.txt\<close>, the current
  directory \<open>/\<close>, no descriptor open on a directory.
\<close>

definition example_fs :: "place \<Rightarrow> node option" where
  "example_fs =
     map_of [([], Dir True True),
             ([''tmp''], Dir True True),
             ([''tmp'', ''ws''], Dir True True),
             ([''etc''], Dir True False),
             ([''etc'', ''passwd''], File True False (Text ''root:x:0:0'')),
             ([''tmp'', ''outside.txt''], File True True (Text ''secret''))]"

definition example_world :: world where
  "example_world = \<lparr>cwd = ''/'', fs = example_fs, descriptors = (\<lambda>n. None)\<rparr>"





definition outside_write :: "world \<times> pydict" where
  "outside_write = FileWriteTool_execute (table_runtime []) example_world
                     (JStr ''../outside.txt'') (JStr ''x'') (JStr ''/tmp/ws'')"

subsection \<open>The shell-command tool\<close>

text \<open>
  What \<open>subprocess.run(command, shell=True, capture_output=True, text=True,
  timeout=60)\<close> does is not modelled: it is given by a function of the world (which holds
  the directory the command starts in) and of the command. It returns how the call ended
  and the file tree the command left. A child process cannot change the current directory
  of the process that started it.
\<close>

datatype proc_outcome =
    Completed int string string
  | TimedOut
  | RunRaised exn

text \<open>
  \<open>os.path.exists\<close> and \<open>os.chdir\<close> on a value of any JSON type: a string is a
  path, an integer (or \<open>True\<close>) is a file descriptor, anything else raises
  \<open>TypeError\<close>.
\<close>

definition exists_value :: "world \<Rightarrow> json \<Rightarrow> exn + bool" where
  "exists_value w v =
     (case v of
        JStr p \<Rightarrow> Inr (path_exists w p)
      | JNum n \<Rightarrow> Inr (descriptors w n \<noteq> None)
      | JBool b \<Rightarrow> Inr (descriptors w (if b then 1 else 0) \<noteq> None)
      | _ \<Rightarrow> Inl TypeError)"

definition fchdir :: "world \<Rightarrow> int \<Rightarrow> exn + world" where
  "fchdir w n =
     (case descriptors w n of
        None \<Rightarrow> Inl (OtherError ''Bad file descriptor'')
      | Some pl \<Rightarrow>
          (case fs w pl of
             Some (Dir r wr) \<Rightarrow> Inr (w\<lparr>cwd := slash # join_with ''/'' pl\<rparr>)
           | _ \<Rightarrow> Inl NotADirectoryError))"

definition chdir_value :: "world \<Rightarrow> json \<Rightarrow> exn + world" where
  "chdir_value w v =
     (case v of
        JStr p \<Rightarrow> chdir w p
      | JNum n \<Rightarrow> fchdir w n
      | JBool b \<Rightarrow> fchdir w (if b then 1 else 0)
      | _ \<Rightarrow> Inl TypeError)"

text \<open>
  The \<open>try\<close> block of \<open>RunCommandTool.execute\<close> (lines 293 to 318). The world is
  returned on every path, with the current directory the block left.
\<close>

definition run_command_body ::
  "runtime \<Rightarrow> (world \<Rightarrow> json \<Rightarrow> proc_outcome \<times> (place \<Rightarrow> node option)) \<Rightarrow>
   world \<Rightarrow> json \<Rightarrow> json \<Rightarrow> world \<times> (exn + pydict)" where
  "run_command_body rt subprocess_run w command workspace_dir =
     (let original_cwd = getcwd w
      in case (if truthy workspace_dir
               then (case exists_value w workspace_dir of
                       Inl e \<Rightarrow> Inl e
                     | Inr True \<Rightarrow> chdir_value w workspace_dir
                     | Inr False \<Rightarrow> Inr w)
               else Inr w) of
           Inl e \<Rightarrow> (w, Inl e)
         | Inr w1 \<Rightarrow>
             let (outcome, tree) = subprocess_run w1 command;
                 w2 = w1\<lparr>fs := tree\<rparr>
             in (case outcome of
                   TimedOut \<Rightarrow> (w2, Inl TimeoutExpired)
                 | RunRaised e \<Rightarrow> (w2, Inl e)
                 | Completed returncode out err \<Rightarrow>
                     (case (if truthy workspace_dir then chdir w2 original_cwd else Inr w2) of
                        Inl e \<Rightarrow> (w2, Inl e)
                      | Inr w3 \<Rightarrow>
                          (w3, Inr [(''success'', JBool (returncode = 0)),
                                    (''output'', JStr out), (''error'', JStr err),
                                    (''return_code'', JNum returncode),
                                    (''command'', command),
                                    (''message'', JStr (''Command executed: ''
                                       @ fmt rt command))]))))"

text \<open>\<open>RunCommandTool.execute\<close>: the body under its two \<open>except\<close> clauses.\<close>

definition RunCommandTool_execute ::
  "runtime \<Rightarrow> (world \<Rightarrow> json \<Rightarrow> proc_outcome \<times> (place \<Rightarrow> node option)) \<Rightarrow>
   world \<Rightarrow> json \<Rightarrow> json \<Rightarrow> world \<times> pydict" where
  "RunCommandTool_execute rt subprocess_run w command workspace_dir =
     (case run_command_body rt subprocess_run w command workspace_dir of
        (w', Inr r) \<Rightarrow> (w', r)
      | (w', Inl TimeoutExpired) \<Rightarrow>
          (w', [(''success'', JBool False),
                (''error'', JStr ''Command timed out after 60 seconds''),
                (''message'', JStr (''Command timed out: '' @ fmt rt command))])
      | (w', Inl e) \<Rightarrow>
          (w', [(''success'', JBool False), (''error'', JStr (str_exn rt e)),
                (''message'', JStr (''Failed to run command '' @ fmt rt command @ '': ''
                   @ str_exn rt e))]))"

text \<open>
  Examples: a command that runs past the timeout, one that ends with return code 0, and
  one that raises; none of them touches the file tree.
\<close>

definition sleeping :: "world \<Rightarrow> json \<Rightarrow> proc_outcome \<times> (place \<Rightarrow> node option)" where
  "sleeping w command = (TimedOut, fs w)"

definition succeeding :: "world \<Rightarrow> json \<Rightarrow> proc_outcome \<times> (place \<Rightarrow> node option)" where
  "succeeding w command = (Completed 0 ''ok'' [], fs w)"

definition raising :: "world \<Rightarrow> json \<Rightarrow> proc_outcome \<times> (place \<Rightarrow> node option)" where
  "raising w command = (RunRaised (OtherError ''boom''), fs w)"

subsection \<open>The tool registry and the dispatch of an action\<close>

text \<open>
  A tool as the dispatcher sees it: the call \<open>execute(**params)\<close> on a dictionary of
  keyword arguments, in a world. It returns the world it leaves and either a result
  dictionary or the exception that leaves the call.
\<close>

type_synonym tool = "world \<Rightarrow> pydict \<Rightarrow> world \<times> (exn + pydict)"

text \<open>
  Python binds the keywords to the parameters of \<open>execute\<close> before the body runs:
  every parameter without a default must be given and no other keyword may be given,
  otherwise the call raises \<open>TypeError\<close>, outside the \<open>try\<close> block of the body.
\<close>

definition binds :: "string list \<Rightarrow> string list \<Rightarrow> pydict \<Rightarrow> bool" where
  "binds required optional kw =
     (list_all (\<lambda>k. map_of kw k \<noteq> None) required \<and>
      list_all (\<lambda>k. k \<in> set required \<or> k \<in> set optional) (map fst kw))"

text \<open>The value of a parameter: the keyword's value, or the default.\<close>

definition argument :: "pydict \<Rightarrow> string \<Rightarrow> json \<Rightarrow> json" where
  "argument kw k default_value = (case map_of kw k of Some v \<Rightarrow> v | None \<Rightarrow> default_value)"

definition read_file_tool :: "runtime \<Rightarrow> tool" where
  "read_file_tool rt w kw =
     (if binds [''file_path''] [''workspace_dir''] kw
      then (w, Inr (FileReadTool_execute rt w (argument kw ''file_path'' JNull)
                      (argument kw ''workspace_dir'' JNull)))
      else (w, Inl TypeError))"

definition write_file_tool :: "runtime \<Rightarrow> tool" where
  "write_file_tool rt w kw =
     (if binds [''file_path'', ''content''] [''workspace_dir''] kw
      then (case FileWriteTool_execute rt w (argument kw ''file_path'' JNull)
                   (argument kw ''content'' JNull) (argument kw ''workspace_dir'' JNull) of
              (w', r) \<Rightarrow> (w', Inr r))
      else (w, Inl TypeError))"

definition run_command_tool ::
  "runtime \<Rightarrow> (world \<Rightarrow> json \<Rightarrow> proc_outcome \<times> (place \<Rightarrow> node option)) \<Rightarrow> tool" where
  "run_command_tool rt subprocess_run w kw =
     (if binds [''command''] [''workspace_dir''] kw
      then (case RunCommandTool_execute rt subprocess_run w (argument kw ''command'' JNull)
                   (argument kw ''workspace_dir'' JNull) of
              (w', r) \<Rightarrow> (w', Inr r))
      else (w, Inl TypeError))"

text \<open>
  The three remaining tools only read the file tree. What their \<open>try\<close> blocks compute
  is not modelled: each block is given as a function of the world and the arguments that
  returns the result dictionary or the exception raised in the block. Their
  \<open>except Exception\<close> clauses are modelled.
\<close>

record oracles =
  subprocess_run :: "world \<Rightarrow> json \<Rightarrow> proc_outcome \<times> (place \<Rightarrow> node option)"
  list_directory_block :: "world \<Rightarrow> json \<Rightarrow> json \<Rightarrow> exn + pydict"
  analyze_ruby_code_block :: "world \<Rightarrow> json \<Rightarrow> json \<Rightarrow> exn + pydict"
  analyze_gem_structure_block :: "world \<Rightarrow> json \<Rightarrow> exn + pydict"

definition DirectoryListTool_execute ::
  "runtime \<Rightarrow> oracles \<Rightarrow> world \<Rightarrow> json \<Rightarrow> json \<Rightarrow> pydict" where
  "DirectoryListTool_execute rt orc w dir_path workspace_dir =
     (case list_directory_block orc w dir_path workspace_dir of
        Inr r \<Rightarrow> r
      | Inl e \<Rightarrow>
          [(''success'', JBool False), (''error'', JStr (str_exn rt e)),
           (''message'', JStr (''Failed to list directory '' @ fmt rt dir_path @ '': ''
              @ str_exn rt e))])"

definition RubyCodeAnalysisTool_execute ::
  "runtime \<Rightarrow> oracles \<Rightarrow> world \<Rightarrow> json \<Rightarrow> json \<Rightarrow> pydict" where
  "RubyCodeAnalysisTool_execute rt orc w file_path workspace_dir =
     (case analyze_ruby_code_block orc w file_path workspace_dir of
        Inr r \<Rightarrow> r
      | Inl e \<Rightarrow>
          [(''success'', JBool False), (''error'', JStr (str_exn rt e)),
           (''message'', JStr (''Failed to analyze '' @ fmt rt file_path @ '': ''
              @ str_exn rt e))])"

definition GemStructureAnalysisTool_execute ::
  "runtime \<Rightarrow> oracles \<Rightarrow> world \<Rightarrow> json \<Rightarrow> pydict" where
  "GemStructureAnalysisTool_execute rt orc w workspace_dir =
     (case analyze_gem_structure_block orc w workspace_dir of
        Inr r \<Rightarrow> r
      | Inl e \<Rightarrow>
          [(''success'', JBool False), (''error'', JStr (str_exn rt e)),
           (''message'', JStr (''Failed to analyze gem structure: '' @ str_exn rt e))])"

definition list_directory_tool :: "runtime \<Rightarrow> oracles \<Rightarrow> tool" where
  "list_directory_tool rt orc w kw =
     (if binds [] [''dir_path'', ''workspace_dir''] kw
      then (w, Inr (DirectoryListTool_execute rt orc w (argument kw ''dir_path'' (JStr ''.''))
                      (argument kw ''workspace_dir'' JNull)))
      else (w, Inl TypeError))"

definition analyze_ruby_code_tool :: "runtime \<Rightarrow> oracles \<Rightarrow> tool" where
  "analyze_ruby_code_tool rt orc w kw =
     (if binds [''file_path''] [''workspace_dir''] kw
      then (w, Inr (RubyCodeAnalysisTool_execute rt orc w (argument kw ''file_path'' JNull)
                      (argument kw ''workspace_dir'' JNull)))
      else (w, Inl TypeError))"

definition analyze_gem_structure_tool :: "runtime \<Rightarrow> oracles \<Rightarrow> tool" where
  "analyze_gem_structure_tool rt orc w kw =
     (if binds [] [''workspace_dir''] kw
      then (w, Inr (GemStructureAnalysisTool_execute rt orc w
                      (argument kw ''workspace_dir'' JNull)))
      else (w, Inl TypeError))"

text \<open>The dictionary \<open>self.tools\<close> of \<open>RefactoringAgent.__init__\<close>, in its order.\<close>

definition agent_tools :: "runtime \<Rightarrow> oracles \<Rightarrow> (string \<times> tool) list" where
  "agent_tools rt orc =
     [(''read_file'', read_file_tool rt),
      (''write_file'', write_file_tool rt),
      (''list_directory'', list_directory_tool rt orc),
      (''run_command'', run_command_tool rt (subprocess_run orc)),
      (''analyze_ruby_code'', analyze_ruby_code_tool rt orc),
      (''analyze_gem_structure'', analyze_gem_structure_tool rt orc)]"

text \<open>The dictionary that \<open>_parse_and_execute_action\<close> returns for an action.\<close>

record action_result =
  ar_action :: string
  ar_params :: json
  ar_result :: pydict
  ar_reasoning :: string

text \<open>
  The statement \<open>params['workspace_dir'] = workspace_dir\<close> under
  \<open>if workspace_dir\<close>: item assignment raises \<open>TypeError\<close> on a value that is not a
  dictionary.
\<close>

definition inject_workspace :: "json \<Rightarrow> string option \<Rightarrow> exn + json" where
  "inject_workspace ps workspace_dir =
     (case workspace_dir of
        None \<Rightarrow> Inr ps
      | Some ws \<Rightarrow>
          if ws = [] then Inr ps
          else (case ps of
                  JObj d \<Rightarrow> Inr (JObj (dict_set d ''workspace_dir'' (JStr ws)))
                | _ \<Rightarrow> Inl TypeError))"

text \<open>
  \<open>_parse_and_execute_action\<close>: the scan, then lines 840 to 868. There is no
  \<open>try\<close> statement in the function: an exception of the assignment or of the tool
  call leaves it. The messages it prints are not modelled.
\<close>

definition parse_and_execute_action ::
  "runtime \<Rightarrow> (string \<times> tool) list \<Rightarrow> world \<Rightarrow> string \<Rightarrow> string option \<Rightarrow>
   world \<times> (exn + action_result option)" where
  "parse_and_execute_action rt tools w ai_response workspace_dir =
     (let st = parse_action rt ai_response
      in if has_action st
         then (case inject_workspace (params st) workspace_dir of
                 Inl e \<Rightarrow> (w, Inl e)
               | Inr ps \<Rightarrow>
                   let name = the (tool_name st)
                   in (case map_of tools name of
                         Some execute \<Rightarrow>
                           (case ps of
                              JObj kw \<Rightarrow>
                                (case execute w kw of
                                   (w', Inl e) \<Rightarrow> (w', Inl e)
                                 | (w', Inr r) \<Rightarrow>
                                     (w', Inr (Some \<lparr>ar_action = name, ar_params = ps,
                                                      ar_result = r,
                                                      ar_reasoning = reasoning st\<rparr>)))
                            | _ \<Rightarrow> (w, Inl TypeError))
                       | None \<Rightarrow>
                           (w, Inr (Some \<lparr>ar_action = name, ar_params = ps,
                                           ar_result =
                                             [(''success'', JBool False),
                                              (''error'', JStr (''Unknown tool: '' @ name)),
                                              (''available_tools'',
                                               JArr (map (\<lambda>(n, t). JStr n) tools))],
                                           ar_reasoning = reasoning st\<rparr>))))
         else (w, Inr None))"

text \<open>Oracles for the examples: the three unmodelled blocks return an empty success.\<close>

definition quiet_oracles :: oracles where
  "quiet_oracles =
     \<lparr>subprocess_run = succeeding,
      list_directory_block = (\<lambda>w d ws. Inr [(''success'', JBool True)]),
      analyze_ruby_code_block = (\<lambda>w f ws. Inr [(''success'', JBool True)]),
      analyze_gem_structure_block = (\<lambda>w ws. Inr [(''success'', JBool True)])\<rparr>"








subsection \<open>The conversation loop: \<open>execute_refactoring_task\<close>\<close>

text \<open>\<open>validate_workspace_directory\<close> and the dictionary it returns.\<close>

record validation =
  valid :: bool
  v_path :: string
  v_error :: "string option"
  v_message :: string

definition validate_workspace_directory :: "world \<Rightarrow> string option \<Rightarrow> validation" where
  "validate_workspace_directory w workspace_dir =
     (if workspace_dir = None \<or> workspace_dir = Some []
      then \<lparr>valid = True, v_path = getcwd w, v_error = None,
            v_message = ''Using current working directory''\<rparr>
      else
        let abs_path = abspath (cwd w) (strip (the workspace_dir))
        in case node_at w abs_path of
             None \<Rightarrow>
               \<lparr>valid = False, v_path = abs_path, v_error = Some ''Directory does not exist'',
                v_message = ''Directory '' @ abs_path @ '' does not exist''\<rparr>
           | Some (File r wr d) \<Rightarrow>
               \<lparr>valid = False, v_path = abs_path, v_error = Some ''Path is not a directory'',
                v_message = ''Path '' @ abs_path @ '' exists but is not a directory''\<rparr>
           | Some (Dir r wr) \<Rightarrow>
               if \<not> r
               then \<lparr>valid = False, v_path = abs_path, v_error = Some ''Permission denied'',
                     v_message = ''Cannot access directory '' @ abs_path
                                 @ '' - permission denied''\<rparr>
               else if \<not> wr
               then \<lparr>valid = False, v_path = abs_path, v_error = Some ''Directory not writable'',
                     v_message = ''Directory '' @ abs_path @ '' is not writable''\<rparr>
               else \<lparr>valid = True, v_path = abs_path, v_error = None,
                     v_message = ''Valid workspace directory: '' @ abs_path\<rparr>)"

text \<open>A turn of the conversation: a dictionary with the keys \<open>role\<close> and \<open>content\<close>.\<close>

record message =
  msg_role :: string
  msg_content :: string

definition user_turn :: "string \<Rightarrow> message" where
  "user_turn s = \<lparr>msg_role = ''user'', msg_content = s\<rparr>"

definition assistant_turn :: "string \<Rightarrow> message" where
  "assistant_turn s = \<lparr>msg_role = ''assistant'', msg_content = s\<rparr>"

text \<open>
  The agent and what it is given. The model provider is a function of the number of the
  iteration and of the history sent (the system prompt is the same in every call of a
  task): it returns the text of the reply, or the exception that the call, or the reading
  of the reply, raises. \<open>ag_tools\<close> is the registry, \<open>ag_json_dumps\<close> stands for
  \<open>json.dumps(..., indent=2)\<close>, and \<open>ag_instruction\<close> for
  \<open>_get_refactoring_instruction\<close>, whose table of texts is not reproduced.
\<close>

record agent =
  ag_client :: "nat \<Rightarrow> message list \<Rightarrow> exn + string"
  ag_tools :: "(string \<times> tool) list"
  ag_runtime :: runtime
  ag_json_dumps :: "pydict \<Rightarrow> string"
  ag_instruction :: "string \<Rightarrow> string"

definition max_iterations :: nat where
  "max_iterations = 15"

definition completion_indicators :: "string list" where
  "completion_indicators =
     [''refactoring complete'', ''task complete'', ''mission accomplished'',
      ''all changes applied'']"

text \<open>The test of line 663.\<close>

definition seems_complete :: "string \<Rightarrow> bool" where
  "seems_complete ai_response =
     list_ex (\<lambda>indicator. contains indicator (lower ai_response)) completion_indicators"

text \<open>The user turn that reports a tool result (lines 649 to 657).\<close>

definition result_message :: "agent \<Rightarrow> action_result \<Rightarrow> string" where
  "result_message ag ar =
     ''Tool '' @ [CHR 0x27] @ ar_action ar @ [CHR 0x27] @ '' executed.'' @ [newline]
     @ ''Reasoning: '' @ ar_reasoning ar @ [newline]
     @ ''Result: '' @ ag_json_dumps ag (ar_result ar) @ [newline]
     @ (if \<not> truthy (case dict_get (ar_result ar) ''success'' of
                         Some v \<Rightarrow> v | None \<Rightarrow> JBool True)
        then [newline] @ ''**ERROR**: The tool execution failed. Please analyze the error and try a different approach.''
        else [])
     @ [newline] @ ''Continue with the next action to complete your refactoring mission.''"

text \<open>The corrective turn of lines 669 to 676.\<close>

definition encouragement :: string where
  \<open>encouragement =
     [newline] @ ''No action detected. For refactoring tasks you must:'' @ [newline]
     @ ''- Use tools to analyze and modify code'' @ [newline]
     @ ''- Start each action with: ACTION: tool_name'' @ [newline]
     @ ''- Follow with: PARAMS: {"param": "value"}  '' @ [newline]
     @ ''- Add: REASONING: explanation'' @ [newline]
     @ [newline]
     @ ''Continue with your next refactoring action.''\<close>

text \<open>
  How the \<open>for\<close> loop is left: normally or by \<open>break\<close>, with the last reply, the
  tool names dispatched, the value of \<open>iteration + 1\<close> and the history; or by an
  exception, with the tool names dispatched so far.
\<close>

datatype loop_end =
    Ended string "string list" nat "message list"
  | Raised exn "string list"

text \<open>
  The loop \<open>for iteration in range(max_iterations)\<close> (lines 621 to 678), from the
  iteration \<open>iteration\<close> on, with \<open>remaining\<close> iterations to go. When none is
  left, \<open>iteration\<close> is the number of iterations done, which is the value of
  \<open>iteration + 1\<close> for the loop variable of the source.
\<close>

fun conversation_loop ::
  "agent \<Rightarrow> string \<Rightarrow> nat \<Rightarrow> nat \<Rightarrow> string \<Rightarrow> message list \<Rightarrow> string list \<Rightarrow> world \<Rightarrow>
   world \<times> loop_end" where
  "conversation_loop ag ws 0 iteration last_response messages actions_taken w =
     (w, Ended last_response actions_taken iteration messages)"
| "conversation_loop ag ws (Suc remaining) iteration last_response messages actions_taken w =
     (case ag_client ag iteration messages of
        Inl e \<Rightarrow> (w, Raised e actions_taken)
      | Inr ai_response \<Rightarrow>
          (case parse_and_execute_action (ag_runtime ag) (ag_tools ag) w ai_response (Some ws) of
             (w', Inl e) \<Rightarrow> (w', Raised e actions_taken)
           | (w', Inr (Some ar)) \<Rightarrow>
               let actions1 = actions_taken @ [ar_action ar];
                   messages1 = messages @ [assistant_turn ai_response,
                                           user_turn (result_message ag ar)]
               in if seems_complete ai_response
                  then (w', Ended ai_response actions1 (iteration + 1) messages1)
                  else conversation_loop ag ws remaining (iteration + 1) ai_response
                         messages1 actions1 w'
           | (w', Inr None) \<Rightarrow>
               (w', Ended ai_response actions_taken (iteration + 1)
                      (messages @ [assistant_turn ai_response]
                       @ (if iteration < max_iterations - 1
                          then [user_turn encouragement] else [])))))"

text \<open>The dictionary that \<open>execute_refactoring_task\<close> returns; a missing key is \<open>None\<close>.\<close>

record refactoring_result =
  rr_success :: bool
  rr_error :: "string option"
  rr_result :: "string option"
  rr_actions :: "string list"
  primaryAction :: string
  rr_task_type :: "string option"
  iterations :: "nat option"
  workspace_error :: "string option"

definition execute_refactoring_task ::
  "agent \<Rightarrow> world \<Rightarrow> string \<Rightarrow> string option \<Rightarrow> world \<times> refactoring_result" where
  "execute_refactoring_task ag w tt workspace_dir =
     (let workspace_validation = validate_workspace_directory w workspace_dir
      in if \<not> valid workspace_validation
         then (w, \<lparr>rr_success = False, rr_error = v_error workspace_validation,
                   rr_result = None, rr_actions = [], primaryAction = ''error'',
                   rr_task_type = None, iterations = None,
                   workspace_error = Some (v_message workspace_validation)\<rparr>)
         else
           (case conversation_loop ag (v_path workspace_validation) max_iterations 0 []
                   [user_turn (ag_instruction ag tt)] [] w of
              (w', Ended ai_response actions_taken n messages) \<Rightarrow>
                (w', \<lparr>rr_success = True, rr_error = None, rr_result = Some ai_response,
                      rr_actions = actions_taken,
                      primaryAction = (if actions_taken \<noteq> [] then hd actions_taken
                                       else ''analysis''),
                      rr_task_type = Some tt, iterations = Some n, workspace_error = None\<rparr>)
            | (w', Raised e actions_taken) \<Rightarrow>
                (w', \<lparr>rr_success = False, rr_error = Some (str_exn (ag_runtime ag) e),
                      rr_result = None, rr_actions = actions_taken, primaryAction = ''error'',
                      rr_task_type = Some tt, iterations = None, workspace_error = None\<rparr>)))"

text \<open>
  Agents for the examples: the registry of the six tools, and a model that gives the
  same reply in every iteration.
\<close>

definition repeating_agent :: "string \<Rightarrow> agent" where
  "repeating_agent reply =
     \<lparr>ag_client = (\<lambda>i messages. Inr reply),
      ag_tools = agent_tools (table_runtime []) quiet_oracles,
      ag_runtime = table_runtime [],
      ag_json_dumps = (\<lambda>d. ''{}''),
      ag_instruction = (\<lambda>tt. ''Improve '' @ tt)\<rparr>"

text \<open>A model that asks for the gem structure first and then only talks.\<close>

definition one_action_agent :: agent where
  "one_action_agent =
     \<lparr>ag_client = (\<lambda>i messages. if i = 0 then Inr ''ACTION: analyze_gem_structure''
                              else Inr ''The code looks fine to me.''),
      ag_tools = agent_tools (table_runtime []) quiet_oracles,
      ag_runtime = table_runtime [],
      ag_json_dumps = (\<lambda>d. ''{}''),
      ag_instruction = (\<lambda>tt. ''Improve '' @ tt)\<rparr>"

text \<open>
  A model that gives the same reply in the first fifteen iterations and would fail if it
  were called once more.
\<close>

definition capped_agent :: "string \<Rightarrow> agent" where
  "capped_agent reply =
     \<lparr>ag_client = (\<lambda>i messages. if i < 15 then Inr reply
                                  else Inl (OtherError ''called a sixteenth time'')),
      ag_tools = agent_tools (table_runtime []) quiet_oracles,
      ag_runtime = table_runtime [],
      ag_json_dumps = (\<lambda>d. ''{}''),
      ag_instruction = (\<lambda>tt. ''Improve '' @ tt)\<rparr>"

section \<open>Properties of the batch runner\<close>

lemma completed_tasks_append:
  "completed_tasks results \<subseteq> completed_tasks (results @ new)"
  by (auto simp: completed_tasks_def)

text \<open>
  One turn of the loop for a task that is not skipped: exactly one result is appended,
  it carries the task, and the counter grows when the result is a success.
\<close>

lemma run_tasks_step:
  assumes ns: "\<not> skipped t results"
  shows "\<exists>r s1. task_info r = Some t \<and>
     (success r \<longrightarrow> r_task_type r = Some (task_type t)) \<and>
     run_tasks agent dry (t # ts) results n s =
       run_tasks agent dry ts (results @ [r]) (if success r then n + 1 else n) s1"
proof -
  obtain r0 s1 where r0: "(if dry then (analyze_task t, s)
        else (let (out, s1) = agent s t in (agent_result (task_type t) out, s1))) = (r0, s1)"
    by (cases "(if dry then (analyze_task t, s)
        else (let (out, s1) = agent s t in (agent_result (task_type t) out, s1)))") auto
  have shape: "success r0 \<longrightarrow> r_task_type r0 = Some (task_type t)"
    using r0 by (auto simp: analyze_task_def agent_result_def
        split: if_splits prod.splits agent_outcome.splits)
  show ?thesis
  proof (cases "success r0")
    case True
    show ?thesis
      apply (rule exI[of _ "verify_success_criteria t (r0\<lparr>task_info := Some t\<rparr>)"])
      apply (rule exI[of _ s1])
      using ns r0 True shape by (simp add: verify_success_criteria_def)
  next
    case False
    show ?thesis
      apply (rule exI[of _ "r0\<lparr>task_info := Some t\<rparr>"])
      apply (rule exI[of _ s1])
      using ns r0 False by simp
  qed
qed

text \<open>
  The results list only grows, by at most one entry per task; the counter counts the
  successful entries; every entry names its task, and a successful one has that task's
  type under \<open>task_type\<close> (so \<open>_check_dependencies\<close> never misses the key).
\<close>

lemma run_tasks_acc:
  "run_tasks agent dry ts results n s = (results', n', s') \<Longrightarrow>
   \<exists>new. results' = results @ new \<and> n' = n + length (filter success new) \<and>
         length new \<le> length ts \<and>
         (\<forall>r\<in>set new. \<exists>t\<in>set ts. task_info r = Some t \<and>
             (success r \<longrightarrow> r_task_type r = Some (task_type t)))"
proof (induction ts arbitrary: results n s)
  case Nil
  then show ?case by simp
next
  case (Cons t ts)
  show ?case
  proof (cases "skipped t results")
    case True
    with Cons.prems have "run_tasks agent dry ts results n s = (results', n', s')" by simp
    from Cons.IH[OF this] show ?thesis by auto
  next
    case False
    from run_tasks_step[OF False, of agent dry ts n s] obtain r s1 where
      r: "task_info r = Some t" "success r \<longrightarrow> r_task_type r = Some (task_type t)"
      and eq: "run_tasks agent dry (t # ts) results n s =
         run_tasks agent dry ts (results @ [r]) (if success r then n + 1 else n) s1" by blast
    from eq Cons.prems have
      "run_tasks agent dry ts (results @ [r]) (if success r then n + 1 else n) s1 = (results', n', s')"
      by simp
    from Cons.IH[OF this] obtain new where
      new: "results' = (results @ [r]) @ new"
        "n' = (if success r then n + 1 else n) + length (filter success new)"
        "length new \<le> length ts"
        "\<forall>x\<in>set new. \<exists>t\<in>set ts. task_info x = Some t \<and>
           (success x \<longrightarrow> r_task_type x = Some (task_type t))" by auto
    show ?thesis
      apply (rule exI[of _ "r # new"])
      using new r by auto
  qed
qed

text \<open>
  A task with a dependency that never gets a successful result is skipped at each of
  its turns.
\<close>

lemma run_tasks_skips:
  assumes "run_tasks agent dry ts results n s = (results', n', s')"
    and "dependencies A = Some deps" and "B \<in> set deps"
    and "Some B \<notin> completed_tasks results'"
    and "\<forall>r\<in>set results. task_info r \<noteq> Some A"
  shows "\<forall>r\<in>set results'. task_info r \<noteq> Some A"
  using assms
proof (induction ts arbitrary: results n s)
  case Nil
  then show ?case by simp
next
  case (Cons t ts)
  show ?case
  proof (cases "skipped t results")
    case True
    with Cons.prems(1) have "run_tasks agent dry ts results n s = (results', n', s')" by simp
    from Cons.IH[OF this Cons.prems(2,3,4,5)] show ?thesis .
  next
    case False
    from run_tasks_step[OF False, of agent dry ts n s] obtain r s1 where
      r: "task_info r = Some t"
      and eq: "run_tasks agent dry (t # ts) results n s =
         run_tasks agent dry ts (results @ [r]) (if success r then n + 1 else n) s1" by blast
    from eq Cons.prems(1) have run:
      "run_tasks agent dry ts (results @ [r]) (if success r then n + 1 else n) s1 = (results', n', s')"
      by simp
    from run_tasks_acc[OF Cons.prems(1)] obtain new where "results' = results @ new" by blast
    then have "completed_tasks results \<subseteq> completed_tasks results'"
      using completed_tasks_append by simp
    with Cons.prems(4) have nb: "Some B \<notin> completed_tasks results" by blast
    have "t \<noteq> A"
    proof
      assume "t = A"
      with False Cons.prems(2,3) nb show False
        by (auto simp: skipped_def has_dependencies_def check_dependencies_def list_all_iff)
    qed
    with r Cons.prems(5) have "\<forall>x\<in>set (results @ [r]). task_info x \<noteq> Some A" by auto
    from Cons.IH[OF run Cons.prems(2,3,4) this] show ?thesis .
  qed
qed

lemma run_tasks_fewer:
  assumes "run_tasks agent dry ts results n s = (results @ new, n', s')"
    and "A \<in> set ts" and "\<forall>r\<in>set new. task_info r \<noteq> Some A"
  shows "length new < length ts"
  using assms
proof (induction ts arbitrary: results n s new)
  case Nil
  then show ?case by simp
next
  case (Cons t ts)
  show ?case
  proof (cases "skipped t results")
    case True
    with Cons.prems(1) have "run_tasks agent dry ts results n s = (results @ new, n', s')" by simp
    from run_tasks_acc[OF this] have "length new \<le> length ts" by auto
    then show ?thesis by simp
  next
    case False
    from run_tasks_step[OF False, of agent dry ts n s] obtain r s1 where
      r: "task_info r = Some t"
      and eq: "run_tasks agent dry (t # ts) results n s =
         run_tasks agent dry ts (results @ [r]) (if success r then n + 1 else n) s1" by blast
    from eq Cons.prems(1) have run:
      "run_tasks agent dry ts (results @ [r]) (if success r then n + 1 else n) s1
         = (results @ new, n', s')"
      by simp
    from run_tasks_acc[OF run] obtain new' where
      new': "results @ new = (results @ [r]) @ new'" by blast
    then have nn: "new = r # new'" by simp
    with r Cons.prems(3) have "t \<noteq> A" by auto
    with Cons.prems(2) have "A \<in> set ts" by simp
    moreover from nn Cons.prems(3) have "\<forall>x\<in>set new'. task_info x \<noteq> Some A" by simp
    moreover from run new' have
      "run_tasks agent dry ts (results @ [r]) (if success r then n + 1 else n) s1
         = ((results @ [r]) @ new', n', s')" by simp
    ultimately have "length new' < length ts" using Cons.IH by blast
    with nn show ?thesis by simp
  qed
qed

lemma plan_summary_results:
  assumes "plan_summary agent pre post tasks dry s = (S, s2)"
  shows "\<exists>n' s1. run_tasks agent dry (sort_key priority (plan_of tasks)) [] 0 (pre s)
            = ([] @ task_results S, n', s1) \<and>
         S = generate_summary (task_results S) n' (length (plan_of tasks))"
proof -
  obtain results n' s1 where r:
    "run_tasks agent dry (sort_key priority (plan_of tasks)) [] 0 (pre s) = (results, n', s1)"
    by (cases "run_tasks agent dry (sort_key priority (plan_of tasks)) [] 0 (pre s)") auto
  with assms have "S = generate_summary results n' (length (plan_of tasks))"
    by (auto simp: plan_summary_def plan_of_def Let_def)
  moreover then have "task_results S = results" by (simp add: generate_summary_def)
  ultimately show ?thesis using r by auto
qed

text \<open>
  Claim C1, as the code has it. Let a run of the plan return the summary \<open>S\<close>, let
  task \<open>A\<close> of the plan declare a dependency on the task type \<open>B\<close>, and let every
  result of a task of type \<open>B\<close> in the run have \<open>success = False\<close>. Then no result
  of \<open>A\<close> is in the results list, \<open>total_tasks\<close> is the length of the plan
  (so it counts \<open>A\<close>), \<open>successful_tasks\<close> counts exactly the successful results
  (so it does not count \<open>A\<close>), and \<open>failed_tasks\<close> is \<open>total_tasks -
  successful_tasks\<close>: the failed results plus every task that left no result, the
  skipped task \<open>A\<close> among them.
\<close>

theorem skipped_on_failed_dependency:
  assumes run: "run_gem_refactor_plan agent pre post save tasks dry s = Inr (S, s')"
    and A: "A \<in> set (plan_of tasks)"
    and deps: "dependencies A = Some deps" and B: "B \<in> set deps"
    and failed: "\<forall>r\<in>set (task_results S).
                   (\<exists>t. task_info r = Some t \<and> task_type t = B) \<longrightarrow> \<not> success r"
  shows "(\<forall>r\<in>set (task_results S). task_info r \<noteq> Some A) \<and>
         total_tasks S = length (plan_of tasks) \<and>
         successful_tasks S = length (filter success (task_results S)) \<and>
         failed_tasks S = total_tasks S - successful_tasks S \<and>
         failed_tasks S = length (filter (\<lambda>r. \<not> success r) (task_results S)) +
                          (length (plan_of tasks) - length (task_results S)) \<and>
         length (task_results S) < length (plan_of tasks)"
proof -
  from run obtain s2 where "plan_summary agent pre post tasks dry s = (S, s2)"
    by (auto simp: run_gem_refactor_plan_def split: prod.splits sum.splits)
  from plan_summary_results[OF this] obtain n' s1 where
    rt: "run_tasks agent dry (sort_key priority (plan_of tasks)) [] 0 (pre s)
            = ([] @ task_results S, n', s1)"
    and S: "S = generate_summary (task_results S) n' (length (plan_of tasks))" by blast
  let ?ts = "sort_key priority (plan_of tasks)"
  from run_tasks_acc[OF rt] have n': "n' = length (filter success (task_results S))"
    and shape: "\<forall>r\<in>set (task_results S). \<exists>t\<in>set ?ts. task_info r = Some t \<and>
             (success r \<longrightarrow> r_task_type r = Some (task_type t))"
    by auto
  have nb: "Some B \<notin> completed_tasks ([] @ task_results S)"
    using shape failed by (fastforce simp: completed_tasks_def)
  have skip: "\<forall>r\<in>set (task_results S). task_info r \<noteq> Some A"
    using run_tasks_skips[OF rt deps B nb] by simp
  have A': "A \<in> set ?ts" using A by simp
  have fewer: "length (task_results S) < length (plan_of tasks)"
    using run_tasks_fewer[OF rt A' skip] by simp
  have "total_tasks S = total_tasks (generate_summary (task_results S) n' (length (plan_of tasks)))"
    using S by simp
  then have tot: "total_tasks S = length (plan_of tasks)"
    by (simp add: generate_summary_def)
  have "successful_tasks S =
      successful_tasks (generate_summary (task_results S) n' (length (plan_of tasks)))"
    using S by simp
  then have suc: "successful_tasks S = length (filter success (task_results S))"
    using n' by (simp add: generate_summary_def)
  have "failed_tasks S =
      failed_tasks (generate_summary (task_results S) n' (length (plan_of tasks)))"
    using S by simp
  then have fl: "failed_tasks S = total_tasks S - successful_tasks S"
    using tot suc n' by (simp add: generate_summary_def)
  have split: "length (task_results S) =
      length (filter success (task_results S)) +
      length (filter (\<lambda>r. \<not> success r) (task_results S))"
    by (rule sum_length_filter_compl[symmetric])
  from skip tot suc fl fewer split show ?thesis by simp
qed

text \<open>
  The theorem at the default plan, run with an agent whose every task fails:
  \<open>performance\<close> depends on \<open>architecture\<close>, which fails.
\<close>

theorem skipped_on_failed_dependency_witness:
  "Some (get_default_gem_refactor_plan ! 1) \<notin> task_info ` set (task_results failed_run_summary) \<and>
   total_tasks failed_run_summary = 8 \<and>
   successful_tasks failed_run_summary = 0 \<and>
   failed_tasks failed_run_summary = 8 \<and>
   length (task_results failed_run_summary) < 8"
proof -
  have run: "run_gem_refactor_plan failing_agent id id saved None False ()
               = Inr (failed_run_summary, ())"
    by code_simp
  have A: "get_default_gem_refactor_plan ! 1 \<in> set (plan_of None)"
    by (simp add: plan_of_def get_default_gem_refactor_plan_def)
  have deps: "dependencies (get_default_gem_refactor_plan ! 1) = Some [''architecture'']"
    by (simp add: get_default_gem_refactor_plan_def)
  have B: "''architecture'' \<in> set [''architecture'']" by simp
  have "list_all (\<lambda>r. \<not> success r) (task_results failed_run_summary)"
    by code_simp
  then have failed: "\<forall>r\<in>set (task_results failed_run_summary).
      (\<exists>t. task_info r = Some t \<and> task_type t = ''architecture'') \<longrightarrow> \<not> success r"
    by (simp add: list_all_iff)
  have len: "length (plan_of None) = 8"
    by (simp add: plan_of_def get_default_gem_refactor_plan_def)
  have n: "length (filter success (task_results failed_run_summary)) = 0"
    by code_simp
  from skipped_on_failed_dependency[OF run A deps B failed] len n show ?thesis
    by auto
qed

text \<open>
  Claim C1 as the specification states it fails in its last part: a skipped task is not
  kept out of the failed tally. In the run above only four tasks leave a result, all four
  failed, and the summary reports eight failed tasks: the four skipped tasks are counted
  as failed.
\<close>

theorem skipped_counted_as_failed:
  "run_gem_refactor_plan failing_agent id id saved None False () = Inr (failed_run_summary, ()) \<and>
   map (\<lambda>r. map_option task_type (task_info r)) (task_results failed_run_summary) =
     [Some ''architecture'', Some ''code_smells'', Some ''error_handling'',
      Some ''understandability''] \<and>
   length (filter (\<lambda>r. \<not> success r) (task_results failed_run_summary)) = 4 \<and>
   total_tasks failed_run_summary = 8 \<and>
   successful_tasks failed_run_summary = 0 \<and>
   failed_tasks failed_run_summary = 8"
  by code_simp

section \<open>Properties of the action parser\<close>












section \<open>Properties of the file tools\<close>

lemma abspath_absolute: "isabs p \<Longrightarrow> abspath c p = normpath p"
  by (simp add: abspath_def)

lemma normpath_tmp_ws: "normpath ''/tmp/ws'' = ''/tmp/ws''"
  by code_simp









lemma failure_not_success:
  "dict_get ((''success'', JBool False) # kvs) ''success'' \<noteq> Some (JBool True)"
  by (simp add: dict_get_def)


text \<open>
  Claim C5. Whatever the state of the world and the current directory, with the
  workspace \<open>/tmp/ws\<close> the tool \<open>read_file\<close> on \<open>/etc/passwd\<close> and the tool
  \<open>write_file\<close> on \<open>/etc/passwd\<close> with content \<open>x\<close> both return
  \<open>success = False\<close> with the access-denied error and message, and the write returns
  the world it was given: nothing is modified.
\<close>

theorem absolute_path_outside_denied:
  "FileReadTool_execute rt w (JStr ''/etc/passwd'') (JStr ''/tmp/ws'')
     = [(''success'', JBool False),
        (''error'', JStr ''Access denied: file is outside workspace directory''),
        (''message'', JStr ''File /etc/passwd is outside the allowed workspace'')] \<and>
   FileWriteTool_execute rt w (JStr ''/etc/passwd'') (JStr ''x'') (JStr ''/tmp/ws'')
     = (w, [(''success'', JBool False),
            (''error'', JStr ''Access denied: file is outside workspace directory''),
            (''message'', JStr ''File /etc/passwd is outside the allowed workspace'')])"
proof -
  have abs: "isabs ''/tmp/ws''" "isabs ''/etc/passwd''"
    by (simp_all add: isabs_def starts_with_def)
  have ws: "abspath (cwd w) ''/tmp/ws'' = ''/tmp/ws''"
    by (simp add: abspath_absolute[OF abs(1)] normpath_tmp_ws)
  have res: "resolve_target w (JStr ''/etc/passwd'') (JStr ''/tmp/ws'') = Inr Denied"
    by (simp add: resolve_target_def abs ws starts_with_def)
  show ?thesis
    by (simp add: FileReadTool_execute_def FileWriteTool_execute_def read_file_body_def
        write_file_body_def res access_denied_def fmt_def)
qed

text \<open>
  Claim C10. For a relative path and a workspace that is not the empty string, the
  containment test is not reached: the target is the absolute form of the path joined to
  the workspace, and \<open>read_file\<close> and \<open>write_file\<close> continue on that target as
  they do after an accepted absolute path.
\<close>

theorem relative_path_not_contained:
  assumes "\<not> isabs fp" and "ws \<noteq> []"
  shows "resolve_target w (JStr fp) (JStr ws) = Inr (Target (abspath (cwd w) (join ws fp))) \<and>
         read_file_body rt w (JStr fp) (JStr ws)
           = read_at rt w (JStr fp) (abspath (cwd w) (join ws fp)) \<and>
         write_file_body rt w (JStr fp) content (JStr ws)
           = write_at rt w (JStr fp) content (abspath (cwd w) (join ws fp))"
  using assms by (simp add: resolve_target_def read_file_body_def write_file_body_def)

text \<open>
  The theorem at \<open>../outside.txt\<close> in the workspace \<open>/tmp/ws\<close>: the target is
  \<open>/tmp/outside.txt\<close>, which does not start with \<open>/tmp/ws\<close>; the file is read
  with success, and written with success.
\<close>

theorem relative_path_not_contained_witness:
  "resolve_target example_world (JStr ''../outside.txt'') (JStr ''/tmp/ws'')
     = Inr (Target ''/tmp/outside.txt'') \<and>
   \<not> starts_with ''/tmp/ws'' ''/tmp/outside.txt'' \<and>
   FileReadTool_execute (table_runtime []) example_world (JStr ''../outside.txt'') (JStr ''/tmp/ws'')
     = [(''success'', JBool True), (''content'', JStr ''secret''),
        (''file_path'', JStr ''/tmp/outside.txt''), (''file_size'', JNum 6),
        (''message'', JStr ''Successfully read ../outside.txt (6 characters)'')] \<and>
   dict_get (snd outside_write) ''success'' = Some (JBool True) \<and>
   node_at example_world ''/tmp/outside.txt'' = Some (File True True (Text ''secret'')) \<and>
   node_at (fst outside_write) ''/tmp/outside.txt'' = Some (File True True (Text ''x''))"
proof -
  have rel: "\<not> isabs ''../outside.txt''" by (simp add: isabs_def starts_with_def)
  have ws: "''/tmp/ws'' \<noteq> []" by simp
  have tgt: "abspath (cwd example_world) (join ''/tmp/ws'' ''../outside.txt'') = ''/tmp/outside.txt''"
    by code_simp
  have rest:
    "\<not> starts_with ''/tmp/ws'' ''/tmp/outside.txt'' \<and>
     FileReadTool_execute (table_runtime []) example_world (JStr ''../outside.txt'')
        (JStr ''/tmp/ws'')
       = [(''success'', JBool True), (''content'', JStr ''secret''),
          (''file_path'', JStr ''/tmp/outside.txt''), (''file_size'', JNum 6),
          (''message'', JStr ''Successfully read ../outside.txt (6 characters)'')] \<and>
     dict_get (snd outside_write) ''success'' = Some (JBool True) \<and>
     node_at example_world ''/tmp/outside.txt'' = Some (File True True (Text ''secret'')) \<and>
     node_at (fst outside_write) ''/tmp/outside.txt'' = Some (File True True (Text ''x''))"
    by code_simp
  from relative_path_not_contained[OF rel ws, of example_world] tgt
  have "resolve_target example_world (JStr ''../outside.txt'') (JStr ''/tmp/ws'')
          = Inr (Target ''/tmp/outside.txt'')"
    by simp
  with rest show ?thesis by blast
qed




section \<open>Properties of the shell-command tool\<close>

text \<open>
  Claim C3 does not hold of the code. The tool is started in the directory \<open>/\<close> with
  the workspace \<open>/tmp/ws\<close>. When the command ends in time, the current directory is
  \<open>/\<close> again on return. When the command runs past the timeout, or when running it
  raises, the \<open>except\<close> clause returns without the \<open>os.chdir(original_cwd)\<close> of the
  normal path, and the current directory of the process is left at \<open>/tmp/ws\<close>.
\<close>

theorem run_command_cwd_after_return:
  "cwd example_world = ''/'' \<and>
   cwd (fst (RunCommandTool_execute (table_runtime []) succeeding example_world
               (JStr ''bundle exec rake test'') (JStr ''/tmp/ws''))) = ''/'' \<and>
   cwd (fst (RunCommandTool_execute (table_runtime []) sleeping example_world
               (JStr ''sleep 100'') (JStr ''/tmp/ws''))) = ''/tmp/ws'' \<and>
   dict_get (snd (RunCommandTool_execute (table_runtime []) sleeping example_world
               (JStr ''sleep 100'') (JStr ''/tmp/ws''))) ''error''
     = Some (JStr ''Command timed out after 60 seconds'') \<and>
   cwd (fst (RunCommandTool_execute (table_runtime []) raising example_world
               (JStr ''sleep 100'') (JStr ''/tmp/ws''))) = ''/tmp/ws''"
  by code_simp

section \<open>Properties of the dispatcher\<close>







text \<open>
  An exception raised in the \<open>try\<close> block of a tool is turned into a result with
  \<open>success = False\<close> by the tool's own \<open>except\<close> clause.
\<close>

lemma read_file_exception_is_failure:
  "read_file_body rt w fp ws = Inl e \<Longrightarrow>
     dict_get (FileReadTool_execute rt w fp ws) ''success'' = Some (JBool False)"
  by (cases e; simp add: FileReadTool_execute_def dict_get_def)

lemma write_file_exception_is_failure:
  "snd (write_file_body rt w fp c ws) = Inl e \<Longrightarrow>
     dict_get (snd (FileWriteTool_execute rt w fp c ws)) ''success'' = Some (JBool False)"
  by (cases "write_file_body rt w fp c ws"; cases e;
      simp add: FileWriteTool_execute_def dict_get_def)

lemma run_command_exception_is_failure:
  "snd (run_command_body rt run w cmd ws) = Inl e \<Longrightarrow>
     dict_get (snd (RunCommandTool_execute rt run w cmd ws)) ''success'' = Some (JBool False)"
  by (cases "run_command_body rt run w cmd ws"; cases e;
      simp add: RunCommandTool_execute_def dict_get_def)

lemma list_directory_exception_is_failure:
  "list_directory_block orc w d ws = Inl e \<Longrightarrow>
     DirectoryListTool_execute rt orc w d ws =
       [(''success'', JBool False), (''error'', JStr (str_exn rt e)),
        (''message'', JStr (''Failed to list directory '' @ fmt rt d @ '': '' @ str_exn rt e))]"
  by (simp add: DirectoryListTool_execute_def)





section \<open>Properties of the conversation loop\<close>

lemma loop_bound:
  "conversation_loop ag ws k i last_r msgs acts w = (w', Ended r a n m) \<Longrightarrow> n \<le> i + k"
proof (induction k arbitrary: i last_r msgs acts w)
  case 0
  then show ?case by simp
next
  case (Suc k)
  from Suc.prems show ?case
    by (auto simp: Let_def split: sum.splits prod.splits option.splits if_splits
        dest!: Suc.IH)
qed

lemma loop_exact:
  "conversation_loop ag ws k i last_r msgs acts w = (w', Ended r a n m) \<Longrightarrow>
   k = 0 \<or> (has_action (parse_action (ag_runtime ag) r) \<and> \<not> seems_complete r) \<Longrightarrow> n = i + k"
proof (induction k arbitrary: i last_r msgs acts w)
  case 0
  then show ?case by simp
next
  case (Suc k)
  from Suc.prems(2) have good: "has_action (parse_action (ag_runtime ag) r)" "\<not> seems_complete r"
    by auto
  from Suc.prems(1) obtain reply where c: "ag_client ag i msgs = Inr reply"
    by (auto split: sum.splits)
  obtain w1 out where d:
    "parse_and_execute_action (ag_runtime ag) (ag_tools ag) w reply (Some ws) = (w1, out)"
    by (cases "parse_and_execute_action (ag_runtime ag) (ag_tools ag) w reply (Some ws)") auto
  show ?case
  proof (cases out)
    case (Inl e)
    with Suc.prems(1) c d show ?thesis by simp
  next
    case (Inr res)
    show ?thesis
    proof (cases res)
      case None
      with Inr Suc.prems(1) c d have "r = reply" by simp
      moreover from None Inr d have "\<not> has_action (parse_action (ag_runtime ag) reply)"
        by (auto simp: parse_and_execute_action_def Let_def
            split: if_splits sum.splits option.splits json.splits prod.splits)
      ultimately show ?thesis using good by simp
    next
      case (Some ar)
      show ?thesis
      proof (cases "seems_complete reply")
        case True
        with Some Inr Suc.prems(1) c d have "r = reply" by (simp add: Let_def)
        with True good show ?thesis by simp
      next
        case False
        with Some Inr Suc.prems(1) c d have
          rec: "conversation_loop ag ws k (i + 1) reply
             (msgs @ [assistant_turn reply, user_turn (result_message ag ar)])
             (acts @ [ar_action ar]) w1 = (w', Ended r a n m)"
          by (simp add: Let_def)
        have "k = 0 \<or> (has_action (parse_action (ag_runtime ag) r) \<and> \<not> seems_complete r)"
          using good by simp
        from Suc.IH[OF rec this] show ?thesis by simp
      qed
    qed
  qed
qed

lemma loop_depends_on_first_replies:
  assumes "\<forall>j m. j < i + k \<longrightarrow> ag_client ag' j m = ag_client ag j m"
    and "ag_tools ag' = ag_tools ag" and "ag_runtime ag' = ag_runtime ag"
    and "ag_json_dumps ag' = ag_json_dumps ag"
  shows "conversation_loop ag' ws k i last_r msgs acts w = conversation_loop ag ws k i last_r msgs acts w"
  using assms(1)
proof (induction k arbitrary: i last_r msgs acts w)
  case 0
  then show ?case by simp
next
  case (Suc k)
  have c: "ag_client ag' i msgs = ag_client ag i msgs" using Suc.prems by simp
  have rm: "\<And>ar. result_message ag' ar = result_message ag ar"
    by (simp add: result_message_def assms(4))
  have ih: "\<And>l ms as w1. conversation_loop ag' ws k (Suc i) l ms as w1
                = conversation_loop ag ws k (Suc i) l ms as w1"
    using Suc.prems by (intro Suc.IH) simp
  show ?case
    by (simp add: c assms(2,3) rm ih Let_def split: sum.splits prod.splits option.splits)
qed


lemma no_action_dispatch:
  "\<not> has_action (parse_action rt reply) \<Longrightarrow>
   parse_and_execute_action rt tls w reply ws = (w, Inr None)"
  by (simp add: parse_and_execute_action_def Let_def)

text \<open>
  Claim C8, as the code has it. The task never makes a sixteenth model call: it is the
  same for two models that give the same replies in the iterations 0 to 14. When the loop
  ends without an exception, the number of iterations it reports is at most 15, and it is
  exactly 15 when the last reply carried an action and no completion phrase, that is, when
  nothing stopped the loop before the cap.
\<close>

theorem loop_stops_at_cap:
  assumes agree: "\<forall>j m. j < max_iterations \<longrightarrow> ag_client ag' j m = ag_client ag j m"
    and same: "ag_tools ag' = ag_tools ag" "ag_runtime ag' = ag_runtime ag"
      "ag_json_dumps ag' = ag_json_dumps ag" "ag_instruction ag' = ag_instruction ag"
  shows "execute_refactoring_task ag' w tt workspace_dir
           = execute_refactoring_task ag w tt workspace_dir \<and>
         (\<forall>n. iterations (snd (execute_refactoring_task ag w tt workspace_dir)) = Some n
              \<longrightarrow> n \<le> max_iterations) \<and>
         (\<forall>r. rr_result (snd (execute_refactoring_task ag w tt workspace_dir)) = Some r \<and>
              has_action (parse_action (ag_runtime ag) r) \<and> \<not> seems_complete r
              \<longrightarrow> iterations (snd (execute_refactoring_task ag w tt workspace_dir))
                    = Some max_iterations)"
proof -
  let ?v = "validate_workspace_directory w workspace_dir"
  let ?loop = "conversation_loop ag (v_path ?v) max_iterations 0 []
                 [user_turn (ag_instruction ag tt)] [] w"
  have agree0: "\<forall>j m. j < 0 + max_iterations \<longrightarrow> ag_client ag' j m = ag_client ag j m"
    using agree by simp
  have eq: "conversation_loop ag' (v_path ?v) max_iterations 0 []
              [user_turn (ag_instruction ag tt)] [] w = ?loop"
    by (rule loop_depends_on_first_replies[OF agree0 same(1,2,3)])
  have one: "execute_refactoring_task ag' w tt workspace_dir
               = execute_refactoring_task ag w tt workspace_dir"
    by (simp add: execute_refactoring_task_def Let_def eq same)
  have two: "n \<le> max_iterations"
    if "iterations (snd (execute_refactoring_task ag w tt workspace_dir)) = Some n" for n
  proof -
    from that obtain w' r a m where "?loop = (w', Ended r a n m)"
      by (auto simp: execute_refactoring_task_def Let_def
          split: if_splits prod.splits loop_end.splits)
    from loop_bound[OF this] show ?thesis by simp
  qed
  have three: "iterations (snd (execute_refactoring_task ag w tt workspace_dir))
                 = Some max_iterations"
    if "rr_result (snd (execute_refactoring_task ag w tt workspace_dir)) = Some r"
      and "has_action (parse_action (ag_runtime ag) r)" and "\<not> seems_complete r" for r
  proof -
    from that(1) have v: "valid ?v"
      by (auto simp: execute_refactoring_task_def Let_def split: if_splits)
    from that(1) v obtain w' a n m where l: "?loop = (w', Ended r a n m)"
      by (auto simp: execute_refactoring_task_def Let_def
          split: if_splits prod.splits loop_end.splits)
    from loop_exact[OF l] that(2,3) have "n = max_iterations" by simp
    with l v show ?thesis
      by (simp add: execute_refactoring_task_def Let_def)
  qed
  from one two three show ?thesis by blast
qed

text \<open>
  The theorem at a model that always asks for the structure of the gem, and at the same
  model made to fail at a sixteenth call: both tasks end alike, after 15 iterations.
\<close>

theorem loop_stops_at_cap_witness:
  "snd (execute_refactoring_task (capped_agent ''ACTION: analyze_gem_structure'') example_world
          ''architecture'' (Some ''/tmp/ws''))
     = snd (execute_refactoring_task (repeating_agent ''ACTION: analyze_gem_structure'')
              example_world ''architecture'' (Some ''/tmp/ws'')) \<and>
   iterations (snd (execute_refactoring_task (capped_agent ''ACTION: analyze_gem_structure'')
                      example_world ''architecture'' (Some ''/tmp/ws''))) = Some 15"
proof -
  let ?reply = "''ACTION: analyze_gem_structure''"
  have agree: "\<forall>j m. j < max_iterations \<longrightarrow>
      ag_client (capped_agent ?reply) j m = ag_client (repeating_agent ?reply) j m"
    by (simp add: capped_agent_def repeating_agent_def max_iterations_def)
  have same: "ag_tools (capped_agent ?reply) = ag_tools (repeating_agent ?reply)"
    "ag_runtime (capped_agent ?reply) = ag_runtime (repeating_agent ?reply)"
    "ag_json_dumps (capped_agent ?reply) = ag_json_dumps (repeating_agent ?reply)"
    "ag_instruction (capped_agent ?reply) = ag_instruction (repeating_agent ?reply)"
    by (simp_all add: capped_agent_def repeating_agent_def)
  have fifteen: "iterations (snd (execute_refactoring_task (repeating_agent ?reply) example_world
                   ''architecture'' (Some ''/tmp/ws''))) = Some 15"
    by code_simp
  from loop_stops_at_cap[OF agree same, of example_world "''architecture''" "Some ''/tmp/ws''"]
  have "execute_refactoring_task (capped_agent ?reply) example_world ''architecture''
          (Some ''/tmp/ws'')
        = execute_refactoring_task (repeating_agent ?reply) example_world ''architecture''
            (Some ''/tmp/ws'')"
    by blast
  with fifteen show ?thesis by simp
qed

text \<open>
  Claim C8 as the specification states it fails: a model whose replies never hold a
  completion phrase, and never an action either, ends the task after one iteration, not
  after 15.
\<close>

theorem loop_without_action_stops_early:
  "\<not> seems_complete ''I am thinking about it.'' \<and>
   rr_success (snd (execute_refactoring_task (repeating_agent ''I am thinking about it.'')
                      example_world ''architecture'' (Some ''/tmp/ws''))) \<and>
   iterations (snd (execute_refactoring_task (repeating_agent ''I am thinking about it.'')
                      example_world ''architecture'' (Some ''/tmp/ws''))) = Some 1"
  by code_simp

text \<open>
  Claim C9. In whatever iteration, with whatever history and with any number of
  iterations still to go, a reply in which the parser finds no action ends the loop in
  that iteration: the reply is appended, then the corrective turn unless this was the last
  iteration of the cap, and the loop is left with \<open>iteration + 1\<close> iterations, no tool
  dispatched and the world untouched. No further model call is made.
\<close>

theorem first_no_action_turn_ends_loop:
  assumes "ag_client ag i msgs = Inr reply"
    and "\<not> has_action (parse_action (ag_runtime ag) reply)"
  shows "conversation_loop ag ws (Suc k) i last_r msgs acts w =
           (w, Ended reply acts (i + 1)
                 (msgs @ [assistant_turn reply]
                  @ (if i < max_iterations - 1 then [user_turn encouragement] else [])))"
  using assms by (simp add: no_action_dispatch)

text \<open>
  The theorem at a model that only talks, in the first iteration; and a task whose model
  asks for one tool and then only talks ends after its second iteration.
\<close>

theorem first_no_action_turn_ends_loop_witness:
  "snd (conversation_loop (repeating_agent ''I am thinking about it.'') ''/tmp/ws'' 15 0 []
          [user_turn ''Improve architecture''] [] example_world)
     = Ended ''I am thinking about it.'' [] 1
         [user_turn ''Improve architecture'', assistant_turn ''I am thinking about it.'',
          user_turn encouragement] \<and>
   iterations (snd (execute_refactoring_task one_action_agent example_world ''architecture''
                      (Some ''/tmp/ws''))) = Some 2 \<and>
   rr_actions (snd (execute_refactoring_task one_action_agent example_world ''architecture''
                      (Some ''/tmp/ws''))) = [''analyze_gem_structure'']"
proof -
  let ?ag = "repeating_agent ''I am thinking about it.''"
  have c: "ag_client ?ag 0 [user_turn ''Improve architecture''] = Inr ''I am thinking about it.''"
    by (simp add: repeating_agent_def)
  have n: "\<not> has_action (parse_action (ag_runtime ?ag) ''I am thinking about it.'')"
    by code_simp
  have fifteen: "(15::nat) = Suc 14" by simp
  have two: "iterations (snd (execute_refactoring_task one_action_agent example_world
                ''architecture'' (Some ''/tmp/ws''))) = Some 2 \<and>
             rr_actions (snd (execute_refactoring_task one_action_agent example_world
                ''architecture'' (Some ''/tmp/ws''))) = [''analyze_gem_structure'']"
    by code_simp
  from first_no_action_turn_ends_loop[OF c n, of "''/tmp/ws''" 14 "[]" "[]" example_world]
  have "snd (conversation_loop ?ag ''/tmp/ws'' (Suc 14) 0 []
          [user_turn ''Improve architecture''] [] example_world)
     = Ended ''I am thinking about it.'' [] 1
         [user_turn ''Improve architecture'', assistant_turn ''I am thinking about it.'',
          user_turn encouragement]"
    by (simp add: max_iterations_def)
  with two show ?thesis unfolding fifteen by blast
qed

end
